theory Spec2Isabelle
  imports Complex_Main
begin

section \<open>The JavaScript runtime the application calls into\<close>

text \<open>
  The application is a client-side TypeScript program. Its business rules read the clock,
  do calendar arithmetic through \<^verbatim>\<open>Date\<close>, and format dates with
  \<^verbatim>\<open>toISOString\<close>. This section gives those library operations as HOL functions,
  following the abstract operations of ECMA-262 (section "Date Objects") by name.

  A time value is an \<open>int\<close>: milliseconds since 1970-01-01T00:00:00Z. The clock stays far
  inside the \<open>\<plusminus>8.64 \<times> 10^15\<close> ms range of \<^verbatim>\<open>Date\<close>, so \<^verbatim>\<open>TimeClip\<close> is the
  identity on every value computed here and is left out. An invalid date (time value NaN)
  is \<open>None\<close> of \<open>int option\<close>.
\<close>

subsection \<open>Numbers\<close>

text \<open>
  A JavaScript number is a double. The values the claims compute with are differences of
  time values and a quotient by the length of a day; they are modelled exactly, as
  rationals, with NaN as a value of its own. Comparisons with NaN are false.
\<close>

datatype number = NaN | Num rat

fun number_minus :: "number \<Rightarrow> number \<Rightarrow> number" where
  "number_minus (Num a) (Num b) = Num (a - b)"
| "number_minus _ _ = NaN"

fun number_div :: "number \<Rightarrow> number \<Rightarrow> number" where
  "number_div (Num a) (Num b) = (if b = 0 then NaN else Num (a / b))"
| "number_div _ _ = NaN"

fun Math_ceil :: "number \<Rightarrow> number" where
  "Math_ceil (Num a) = Num (of_int \<lceil>a\<rceil>)"
| "Math_ceil NaN = NaN"

fun number_gt :: "number \<Rightarrow> number \<Rightarrow> bool" where
  "number_gt (Num a) (Num b) = (a > b)"
| "number_gt _ _ = False"

fun number_le :: "number \<Rightarrow> number \<Rightarrow> bool" where
  "number_le (Num a) (Num b) = (a \<le> b)"
| "number_le _ _ = False"

subsection \<open>Strings\<close>

text \<open>
  Truthiness of a string: the empty string is falsy, every other string is truthy.
  An optional field is \<open>string option\<close>; \<open>None\<close> is \<^verbatim>\<open>undefined\<close>.
\<close>

definition truthy :: "string \<Rightarrow> bool" where
  "truthy s = (s \<noteq> [])"

text \<open>\<^verbatim>\<open>!s\<close> for a string \<open>s\<close>.\<close>

definition falsy :: "string \<Rightarrow> bool" where
  "falsy s = (s = [])"

definition truthy_opt :: "string option \<Rightarrow> bool" where
  "truthy_opt s = (case s of None \<Rightarrow> False | Some x \<Rightarrow> truthy x)"

text \<open>\<^verbatim>\<open>s || undefined\<close>\<close>

definition or_undefined :: "string \<Rightarrow> string option" where
  "or_undefined s = (if truthy s then Some s else None)"

text \<open>\<^verbatim>\<open>s || d\<close> for an optional string \<open>s\<close> and a default \<open>d\<close>.\<close>

definition or_else :: "string option \<Rightarrow> string \<Rightarrow> string" where
  "or_else s d = (case s of None \<Rightarrow> d | Some x \<Rightarrow> if truthy x then x else d)"

text \<open>
  \<^verbatim>\<open>String.prototype.trim\<close> removes the white space and the line terminators of ECMA-262
  from both ends. A \<open>char\<close> of HOL is a byte, so a string stands for its UTF-8 encoding and
  each of these code points is the list of its bytes: U+0009 to U+000D and U+0020, the
  NO-BREAK SPACE U+00A0, U+1680, U+2000 to U+200A, the separators U+2028 and U+2029,
  U+202F, U+205F, U+3000, and the byte order mark U+FEFF.
\<close>

definition whiteSpace :: "string list" where
  "whiteSpace =
     [[CHR 0x09], [CHR 0x0A], [CHR 0x0B], [CHR 0x0C], [CHR 0x0D], [CHR 0x20],
      [CHR 0xC2, CHR 0xA0],
      [CHR 0xE1, CHR 0x9A, CHR 0x80],
      [CHR 0xE2, CHR 0x80, CHR 0x80], [CHR 0xE2, CHR 0x80, CHR 0x81],
      [CHR 0xE2, CHR 0x80, CHR 0x82], [CHR 0xE2, CHR 0x80, CHR 0x83],
      [CHR 0xE2, CHR 0x80, CHR 0x84], [CHR 0xE2, CHR 0x80, CHR 0x85],
      [CHR 0xE2, CHR 0x80, CHR 0x86], [CHR 0xE2, CHR 0x80, CHR 0x87],
      [CHR 0xE2, CHR 0x80, CHR 0x88], [CHR 0xE2, CHR 0x80, CHR 0x89],
      [CHR 0xE2, CHR 0x80, CHR 0x8A],
      [CHR 0xE2, CHR 0x80, CHR 0xA8], [CHR 0xE2, CHR 0x80, CHR 0xA9],
      [CHR 0xE2, CHR 0x80, CHR 0xAF],
      [CHR 0xE2, CHR 0x81, CHR 0x9F],
      [CHR 0xE3, CHR 0x80, CHR 0x80],
      [CHR 0xEF, CHR 0xBB, CHR 0xBF]]"

definition startsWith :: "string \<Rightarrow> string \<Rightarrow> bool" where
  "startsWith s w = (take (length w) s = w)"

text \<open>
  The number of bytes of the code point of \<open>ws\<close> that \<open>s\<close> starts with, 0 when it starts
  with none; \<open>strip ws s\<close> is \<open>s\<close> without its leading code points of \<open>ws\<close>.
\<close>

definition leading :: "string list \<Rightarrow> string \<Rightarrow> nat" where
  "leading ws s = (case find (startsWith s) ws of None \<Rightarrow> 0 | Some w \<Rightarrow> length w)"

function strip :: "string list \<Rightarrow> string \<Rightarrow> string" where
  "strip ws s = (if leading ws s = 0 then s else strip ws (drop (leading ws s) s))"
  by pat_completeness auto
termination
proof (relation "measure (\<lambda>(ws, s). length s)")
  show "wf (measure (\<lambda>(ws, s). length s))" by simp
next
  fix ws :: "string list" and s :: string
  assume pos: "leading ws s \<noteq> 0"
  then obtain w where w: "find (startsWith s) ws = Some w" "leading ws s = length w"
    by (auto simp: leading_def split: option.splits)
  then have "startsWith s w" by (auto simp: find_Some_iff)
  then have "take (length w) s = w" by (simp add: startsWith_def)
  then have "length w \<le> length s" by (metis length_take min.cobounded1)
  with pos w(2) have "s \<noteq> []" by auto
  with pos show "((ws, drop (leading ws s) s), (ws, s)) \<in> measure (\<lambda>(ws, s). length s)"
    by simp
qed

declare strip.simps [simp del]

text \<open>
  The trailing white space is the leading white space of the reversed string, each code
  point with its bytes reversed.
\<close>

definition trim :: "string \<Rightarrow> string" where
  "trim s = rev (strip (map rev whiteSpace) (rev (strip whiteSpace s)))"

text \<open>
  Decimal digits; \<open>pad k n\<close> is the last \<open>k\<close> digits of \<open>n \<ge> 0\<close>, with leading zeros.
\<close>

definition digit :: "int \<Rightarrow> char" where
  "digit n = ''0123456789'' ! nat (n mod 10)"

fun pad :: "nat \<Rightarrow> int \<Rightarrow> string" where
  "pad 0 n = []"
| "pad (Suc k) n = pad k (n div 10) @ [digit n]"

text \<open>\<^verbatim>\<open>String(n)\<close> for an integer \<open>n\<close>, as a template literal prints it.\<close>

function digits :: "int \<Rightarrow> string" where
  "digits n = (if n < 10 then [digit n] else digits (n div 10) @ [digit n])"
  by pat_completeness auto
termination
  by (relation "measure nat") auto

declare digits.simps [simp del]

definition String_of_int :: "int \<Rightarrow> string" where
  "String_of_int i = (if i < 0 then CHR ''-'' # digits (- i) else digits i)"

text \<open>\<^verbatim>\<open>s.split("T")[0]\<close>: the part of \<open>s\<close> before the first \<open>T\<close>.\<close>

definition split_T_0 :: "string \<Rightarrow> string" where
  "split_T_0 s = takeWhile (\<lambda>c. c \<noteq> CHR ''T'') s"

subsection \<open>Days, years and months (ECMA-262, Date Objects)\<close>

definition msPerDay :: int where
  "msPerDay = 86400000"

definition Day :: "int \<Rightarrow> int" where
  "Day t = t div msPerDay"

definition TimeWithinDay :: "int \<Rightarrow> int" where
  "TimeWithinDay t = t mod msPerDay"

definition DaysInYear :: "int \<Rightarrow> int" where
  "DaysInYear y =
     (if y mod 4 \<noteq> 0 then 365
      else if y mod 100 \<noteq> 0 then 366
      else if y mod 400 \<noteq> 0 then 365
      else 366)"

definition DayFromYear :: "int \<Rightarrow> int" where
  "DayFromYear y =
     365 * (y - 1970) + (y - 1969) div 4 - (y - 1901) div 100 + (y - 1601) div 400"

definition TimeFromYear :: "int \<Rightarrow> int" where
  "TimeFromYear y = msPerDay * DayFromYear y"

text \<open>
  \<open>YearFromTime t\<close> is the largest \<open>y\<close> with \<open>TimeFromYear y \<le> t\<close>. It is found by
  counting up from a year that is not later than the answer: a year has at most 366 days
  and at least 365.
\<close>

function year_search :: "int \<Rightarrow> int \<Rightarrow> int" where
  "year_search d y = (if DayFromYear (y + 1) \<le> d then year_search d (y + 1) else y)"
  by pat_completeness auto
termination
proof (relation "measure (\<lambda>(d, y). nat (d - DayFromYear y))")
  show "wf (measure (\<lambda>(d, y). nat (d - DayFromYear y)))" by simp
next
  fix d y :: int
  assume le: "DayFromYear (y + 1) \<le> d"
  define a where "a = (y - 1969) div 4"
  define a' where "a' = (y + 1 - 1969) div 4"
  define b where "b = (y - 1901) div 100"
  define b' where "b' = (y + 1 - 1901) div 100"
  define c where "c = (y - 1601) div 400"
  define c' where "c' = (y + 1 - 1601) div 400"
  have a: "a \<le> a'" unfolding a_def a'_def by simp
  have c: "c \<le> c'" unfolding c_def c'_def by simp
  have "(y - 1901) div 100 = ((y - 1901) div 4) div 25"
    and "(y + 1 - 1901) div 100 = ((y + 1 - 1901) div 4) div 25"
    by (simp_all add: zdiv_zmult2_eq)
  moreover have "(y - 1901) div 4 = a + 17" and "(y + 1 - 1901) div 4 = a' + 17"
    unfolding a_def a'_def by presburger+
  ultimately have b: "b = (a + 17) div 25" "b' = (a' + 17) div 25"
    unfolding b_def b'_def by simp_all
  have "a' \<le> a + 1" unfolding a_def a'_def by presburger
  with a have "a' = a \<or> a' = a + 1" by arith
  then have "b' - b \<le> a' - a"
  proof
    assume "a' = a" then show ?thesis using b by simp
  next
    assume "a' = a + 1" then show ?thesis using b by presburger
  qed
  then have "365 * (y - 1970) + a - b + c + 365 \<le> 365 * (y + 1 - 1970) + a' - b' + c'"
    using c by simp
  then have "DayFromYear y + 365 \<le> DayFromYear (y + 1)"
    unfolding DayFromYear_def a_def a'_def b_def b'_def c_def c'_def .
  with le show "((d, y + 1), (d, y)) \<in> measure (\<lambda>(d, y). nat (d - DayFromYear y))"
    by simp
qed

declare year_search.simps [simp del]

definition YearFromTime :: "int \<Rightarrow> int" where
  "YearFromTime t =
     (let d = Day t
      in year_search d (1970 + (if 0 \<le> d then d div 366 else d div 365)))"

definition InLeapYear :: "int \<Rightarrow> int" where
  "InLeapYear t = (if DaysInYear (YearFromTime t) = 366 then 1 else 0)"

definition DayWithinYear :: "int \<Rightarrow> int" where
  "DayWithinYear t = Day t - DayFromYear (YearFromTime t)"

text \<open>
  The day number within the year on which each month starts, for a common year
  (\<open>leap = 0\<close>) and a leap year (\<open>leap = 1\<close>).
\<close>

definition monthStart :: "int \<Rightarrow> int list" where
  "monthStart leap =
     [0, 31, 59 + leap, 90 + leap, 120 + leap, 151 + leap, 181 + leap,
      212 + leap, 243 + leap, 273 + leap, 304 + leap, 334 + leap]"

definition MonthFromTime :: "int \<Rightarrow> int" where
  "MonthFromTime t =
     int (length (filter (\<lambda>s. s \<le> DayWithinYear t) (monthStart (InLeapYear t)))) - 1"

definition DateFromTime :: "int \<Rightarrow> int" where
  "DateFromTime t =
     DayWithinYear t - monthStart (InLeapYear t) ! nat (MonthFromTime t) + 1"

definition HourFromTime :: "int \<Rightarrow> int" where
  "HourFromTime t = (t div 3600000) mod 24"

definition MinFromTime :: "int \<Rightarrow> int" where
  "MinFromTime t = (t div 60000) mod 60"

definition SecFromTime :: "int \<Rightarrow> int" where
  "SecFromTime t = (t div 1000) mod 60"

definition msFromTime :: "int \<Rightarrow> int" where
  "msFromTime t = t mod 1000"

definition MakeTime :: "int \<Rightarrow> int \<Rightarrow> int \<Rightarrow> int \<Rightarrow> int" where
  "MakeTime hour minute sec ms = hour * 3600000 + minute * 60000 + sec * 1000 + ms"

text \<open>
  \<open>MakeDay year month date\<close>: the day number of the given date, where \<open>month\<close> counts from 0
  and may lie outside \<open>0..11\<close> (it carries into the year) and \<open>date\<close> may lie outside the
  month (it carries into the following days).
\<close>

definition MakeDay :: "int \<Rightarrow> int \<Rightarrow> int \<Rightarrow> int" where
  "MakeDay year month date =
     (let ym = year + month div 12;
          mn = month mod 12
      in DayFromYear ym + monthStart (if DaysInYear ym = 366 then 1 else 0) ! nat mn
         + date - 1)"

definition MakeDate :: "int \<Rightarrow> int \<Rightarrow> int" where
  "MakeDate day time = day * msPerDay + time"

subsection \<open>The environment of one event\<close>

text \<open>
  What an event handler reads from outside the program: the clock (\<^verbatim>\<open>new Date()\<close>,
  \<^verbatim>\<open>Date.now()\<close>; read once per event), the offset of local time from UTC in
  milliseconds (\<open>LocalTZA t isUTC\<close> of ECMA-262, which may vary with \<open>t\<close> for daylight
  saving), the next \<^verbatim>\<open>crypto.randomUUID()\<close>, and the parsers of the runtime:
  \<^verbatim>\<open>new Date(s).getTime()\<close> (\<open>None\<close> for an invalid date), \<^verbatim>\<open>Number.parseFloat\<close> and
  \<^verbatim>\<open>Number.parseInt\<close>.
\<close>

record env =
  now :: int
  LocalTZA :: "int \<Rightarrow> bool \<Rightarrow> int"
  randomUUID :: string
  dateParse :: "string \<Rightarrow> int option"
  parseFloat :: "string \<Rightarrow> number"
  parseInt :: "string \<Rightarrow> number"

definition LocalTime :: "env \<Rightarrow> int \<Rightarrow> int" where
  "LocalTime e t = t + LocalTZA e t True"

definition UTC :: "env \<Rightarrow> int \<Rightarrow> int" where
  "UTC e t = t - LocalTZA e t False"

subsection \<open>The methods of Date the application calls\<close>

definition getFullYear :: "env \<Rightarrow> int \<Rightarrow> int" where
  "getFullYear e d = YearFromTime (LocalTime e d)"

definition getMonth :: "env \<Rightarrow> int \<Rightarrow> int" where
  "getMonth e d = MonthFromTime (LocalTime e d)"

text \<open>
  \<^verbatim>\<open>new Date(year, month, date)\<close>: local midnight of that day; a year from 0 to 99 means
  1900 + year.
\<close>

definition Date_new :: "env \<Rightarrow> int \<Rightarrow> int \<Rightarrow> int \<Rightarrow> int" where
  "Date_new e year month date =
     (let yr = (if 0 \<le> year \<and> year \<le> 99 then 1900 + year else year);
          finalDate = MakeDate (MakeDay yr month date) (MakeTime 0 0 0 0)
      in UTC e finalDate)"

text \<open>\<^verbatim>\<open>d.setMonth(month)\<close>: the new time value of \<open>d\<close>.\<close>

definition setMonth :: "env \<Rightarrow> int \<Rightarrow> int \<Rightarrow> int" where
  "setMonth e d month =
     (let t = LocalTime e d;
          newDate = MakeDate (MakeDay (YearFromTime t) month (DateFromTime t)) (TimeWithinDay t)
      in UTC e newDate)"

definition getTime :: "int option \<Rightarrow> number" where
  "getTime d = (case d of None \<Rightarrow> NaN | Some t \<Rightarrow> Num (of_int t))"

text \<open>
  \<^verbatim>\<open>d.toISOString()\<close>: the UTC date and time as \<^verbatim>\<open>YYYY-MM-DDTHH:mm:ss.sssZ\<close>; a year
  outside 0..9999 is written with a sign and six digits.
\<close>

definition isoYear :: "int \<Rightarrow> string" where
  "isoYear y =
     (if 0 \<le> y \<and> y \<le> 9999 then pad 4 y
      else (if y < 0 then CHR ''-'' else CHR ''+'') # pad 6 \<bar>y\<bar>)"

definition toISOString :: "int \<Rightarrow> string" where
  "toISOString t =
     isoYear (YearFromTime t) @ ''-'' @ pad 2 (MonthFromTime t + 1) @ ''-''
       @ pad 2 (DateFromTime t) @ ''T'' @ pad 2 (HourFromTime t) @ '':''
       @ pad 2 (MinFromTime t) @ '':'' @ pad 2 (SecFromTime t) @ ''.''
       @ pad 3 (msFromTime t) @ ''Z''"

section \<open>Data model (types/property.ts, types/notification.ts)\<close>

text \<open>
  The interfaces of the source as records, the string-literal unions as datatypes. A field
  name that several interfaces share (\<open>id\<close>, \<open>userId\<close>, \<open>name\<close>, \<open>status\<close>, \<open>type\<close>, \<open>createdAt\<close>,
  \<open>propertyId\<close>, \<open>propertyName\<close>) carries a prefix for its interface; every other field
  keeps its name. An optional field is an \<open>option\<close>.
\<close>

datatype property_status = Vacant | Occupied | Maintenance

datatype property_type = Apartment | House | Commercial | Land

datatype payment_status = Paid | Pending | Overdue

record property =
  p_id :: string
  p_userId :: "string option"
  p_name :: string
  rent :: number
  occupant :: "string option"
  occupantEmail :: "string option"
  occupantPhone :: "string option"
  stayPeriod :: "string option"
  leaseStartDate :: "string option"
  leaseEndDate :: "string option"
  p_status :: property_status
  propertyType :: "property_type option"
  address :: "string option"
  bedrooms :: "number option"
  bathrooms :: "number option"
  squareFeet :: "number option"
  p_createdAt :: string
  lastPaymentDate :: "string option"
  nextPaymentDue :: "string option"
  paymentStatus :: payment_status

datatype payment_method = Cash | Bank_transfer | Card | Check

datatype payment_record_status = Completed | PaymentPending | PaymentFailed

record payment =
  pay_id :: string
  pay_userId :: "string option"
  pay_propertyId :: string
  pay_propertyName :: string
  occupantName :: string
  amount :: number
  paymentDate :: string
  paymentMethod :: payment_method
  pay_status :: payment_record_status
  receiptNumber :: "string option"
  pay_notes :: "string option"
  pay_createdAt :: string

datatype notification_type = General | Reminder | MaintenanceNotice | PaymentNotice | Announcement

datatype notification_status = Sent | NotificationPending | NotificationFailed

text \<open>
  The notification of types/notification.ts, which the send dialog builds; the dashboard adds
  \<open>userId\<close> to it.
\<close>

record notification =
  n_id :: string
  n_userId :: "string option"
  n_propertyId :: string
  n_propertyName :: string
  recipientName :: string
  recipientEmail :: "string option"
  subject :: string
  message :: string
  n_type :: notification_type
  n_status :: notification_status
  sentAt :: string
  n_createdAt :: string

text \<open>The session user of contexts/auth-context.tsx, and a registered account.\<close>

record user =
  u_id :: string
  u_email :: string
  u_name :: string
  u_createdAt :: string
  isNewUser :: "bool option"

record account =
  a_id :: string
  a_email :: string
  a_password :: string
  a_name :: string
  a_createdAt :: string

section \<open>Lease expiry (lib/utils.ts, components/property-stats.tsx)\<close>

definition getDaysUntilExpiry :: "env \<Rightarrow> string option \<Rightarrow> number option" where
  "getDaysUntilExpiry e led =
     (case led of
        None \<Rightarrow> None
      | Some s \<Rightarrow>
          if falsy s then None
          else
            let today = Some (now e);
                endDate = dateParse e s;
                diffTime = number_minus (getTime endDate) (getTime today);
                diffDays = Math_ceil (number_div diffTime (Num (1000 * 60 * 60 * 24)))
            in Some diffDays)"

definition isLeaseExpiringSoon :: "env \<Rightarrow> string option \<Rightarrow> number \<Rightarrow> bool" where
  "isLeaseExpiringSoon e led daysThreshold =
     (case getDaysUntilExpiry e led of
        None \<Rightarrow> False
      | Some daysUntil \<Rightarrow> number_gt daysUntil (Num 0) \<and> number_le daysUntil daysThreshold)"

text \<open>The default value of the parameter \<open>daysThreshold\<close>.\<close>

definition isLeaseExpiringSoon_default :: "env \<Rightarrow> string option \<Rightarrow> bool" where
  "isLeaseExpiringSoon_default e led = isLeaseExpiringSoon e led (Num 30)"

text \<open>The count \<open>expiringSoon\<close> of the component PropertyStats.\<close>

definition expiringSoon :: "env \<Rightarrow> property list \<Rightarrow> nat" where
  "expiringSoon e props =
     length (filter (\<lambda>p. case getDaysUntilExpiry e (leaseEndDate p) of
                             None \<Rightarrow> False
                           | Some days \<Rightarrow> number_gt days (Num 0) \<and> number_le days (Num 30))
               props)"

section \<open>The dashboard (app/dashboard/page.tsx)\<close>

text \<open>
  The state of the page is its React state (the current user of the auth context, the three
  arrays, the loading flag) and the browser's \<^verbatim>\<open>localStorage\<close>. The page keeps one
  document per user and collection, under the keys \<^verbatim>\<open>realestate_properties_<id>\<close>,
  \<^verbatim>\<open>realestate_notifications_<id>\<close> and \<^verbatim>\<open>realestate_payments_<id>\<close>. Keys of different
  collections never coincide (lemma \<open>storage_keys_distinct\<close>), so the store is three maps
  from the user id, one per key prefix; \<^verbatim>\<open>JSON.stringify\<close> followed by \<^verbatim>\<open>JSON.parse\<close>
  gives back the rows that were written.

  The document under a payments key is written twice by \<open>handleRecordPayment\<close>: first with
  the payments, then with the updated properties. A row of that document, and of the array
  \<open>payments\<close> that \<open>loadUserData\<close> fills from it without a check, is therefore a payment
  or a property.
\<close>

definition storageKeyProperties :: "string \<Rightarrow> string" where
  "storageKeyProperties uid = ''realestate_properties_'' @ uid"

definition storageKeyNotifications :: "string \<Rightarrow> string" where
  "storageKeyNotifications uid = ''realestate_notifications_'' @ uid"

definition storageKeyPayments :: "string \<Rightarrow> string" where
  "storageKeyPayments uid = ''realestate_payments_'' @ uid"

datatype payment_row = PaymentRow payment | PropertyRow property

text \<open>
  The field \<^verbatim>\<open>status\<close> of a row, as the payment history reads it: the status of a
  payment, or the occupancy status of a property.
\<close>

definition row_status :: "payment_row \<Rightarrow> string" where
  "row_status r =
     (case r of
        PaymentRow p \<Rightarrow>
          (case pay_status p of
             Completed \<Rightarrow> ''completed''
           | PaymentPending \<Rightarrow> ''pending''
           | PaymentFailed \<Rightarrow> ''failed'')
      | PropertyRow q \<Rightarrow>
          (case p_status q of
             Vacant \<Rightarrow> ''vacant''
           | Occupied \<Rightarrow> ''occupied''
           | Maintenance \<Rightarrow> ''maintenance''))"

record dashboard =
  user :: "user option"
  properties :: "property list"
  notifications :: "notification list"
  payments :: "payment_row list"
  isLoading :: bool
  realestate_properties :: "string \<rightharpoonup> property list"
  realestate_notifications :: "string \<rightharpoonup> notification list"
  realestate_payments :: "string \<rightharpoonup> payment_row list"

definition loadUserData :: "dashboard \<Rightarrow> dashboard" where
  "loadUserData st =
     (case user st of
        None \<Rightarrow> st
      | Some u \<Rightarrow>
          let st1 = (case realestate_properties st (u_id u) of
                       Some parsedProperties \<Rightarrow> st\<lparr>properties := parsedProperties\<rparr>
                     | None \<Rightarrow> st);
              st2 = (case realestate_notifications st1 (u_id u) of
                       Some storedNotifications \<Rightarrow> st1\<lparr>notifications := storedNotifications\<rparr>
                     | None \<Rightarrow> st1);
              st3 = (case realestate_payments st2 (u_id u) of
                       Some storedPayments \<Rightarrow> st2\<lparr>payments := storedPayments\<rparr>
                     | None \<Rightarrow> st2)
          in st3\<lparr>isLoading := False\<rparr>)"

text \<open>
  Mounting the page (a reload of the dashboard): the React state starts from its initial
  values and the effect calls \<open>loadUserData\<close>. The store and the session are what they were.
\<close>

definition DashboardPage_mount :: "dashboard \<Rightarrow> dashboard" where
  "DashboardPage_mount st =
     loadUserData (st\<lparr>properties := [], notifications := [], payments := [], isLoading := True\<rparr>)"

definition handleAddProperty :: "property \<Rightarrow> dashboard \<Rightarrow> dashboard" where
  "handleAddProperty property st =
     (case user st of
        None \<Rightarrow> st
      | Some u \<Rightarrow>
          let propertyWithUser = property\<lparr>p_userId := Some (u_id u)\<rparr>;
              newProperties = properties st @ [propertyWithUser]
          in st\<lparr>properties := newProperties,
                realestate_properties := (realestate_properties st)(u_id u \<mapsto> newProperties)\<rparr>)"

definition handleDeleteProperty :: "string \<Rightarrow> dashboard \<Rightarrow> dashboard" where
  "handleDeleteProperty i st =
     (case user st of
        None \<Rightarrow> st
      | Some u \<Rightarrow>
          let newProperties = filter (\<lambda>p. p_id p \<noteq> i) (properties st)
          in st\<lparr>properties := newProperties,
                realestate_properties := (realestate_properties st)(u_id u \<mapsto> newProperties)\<rparr>)"

definition handleEditProperty :: "property \<Rightarrow> dashboard \<Rightarrow> dashboard" where
  "handleEditProperty updatedProperty st =
     (case user st of
        None \<Rightarrow> st
      | Some u \<Rightarrow>
          let newProperties =
                map (\<lambda>p. if p_id p = p_id updatedProperty then updatedProperty else p)
                  (properties st)
          in st\<lparr>properties := newProperties,
                realestate_properties := (realestate_properties st)(u_id u \<mapsto> newProperties)\<rparr>)"

definition handleSendNotification :: "notification \<Rightarrow> dashboard \<Rightarrow> dashboard" where
  "handleSendNotification notification st =
     (case user st of
        None \<Rightarrow> st
      | Some u \<Rightarrow>
          let notificationWithUser = notification\<lparr>n_userId := Some (u_id u)\<rparr>;
              newNotifications = notifications st @ [notificationWithUser]
          in st\<lparr>notifications := newNotifications,
                realestate_notifications :=
                  (realestate_notifications st)(u_id u \<mapsto> newNotifications)\<rparr>)"

text \<open>
  \<open>handleRecordPayment\<close>. The last statement of the source writes \<open>updatedProperties\<close>
  under \<open>storageKeyPayments\<close>; the document under the properties key is not written.
\<close>

definition handleRecordPayment :: "env \<Rightarrow> payment \<Rightarrow> dashboard \<Rightarrow> dashboard" where
  "handleRecordPayment e payment st =
     (case user st of
        None \<Rightarrow> st
      | Some u \<Rightarrow>
          let paymentWithUser = payment\<lparr>pay_userId := Some (u_id u)\<rparr>;
              newPayments = payments st @ [PaymentRow paymentWithUser];
              st1 = st\<lparr>payments := newPayments,
                       realestate_payments := (realestate_payments st)(u_id u \<mapsto> newPayments)\<rparr>;
              updatedProperties =
                map (\<lambda>p. if p_id p = pay_propertyId payment
                          then
                            let nextMonth = setMonth e (now e) (getMonth e (now e) + 1)
                            in p\<lparr>paymentStatus := Paid,
                                 lastPaymentDate := Some (paymentDate payment),
                                 nextPaymentDue := Some (split_T_0 (toISOString nextMonth))\<rparr>
                          else p)
                  (properties st)
          in st1\<lparr>properties := updatedProperties,
                 realestate_payments :=
                   (realestate_payments st1)(u_id u \<mapsto> map PropertyRow updatedProperties)\<rparr>)"

section \<open>The add-property dialog (components/add-property-dialog.tsx)\<close>

text \<open>
  The form state: every text input is a string (empty when not filled in); the property
  type is \<open>None\<close> while the select still shows the empty choice.
\<close>

record add_form =
  f_name :: string
  f_rent :: string
  f_occupant :: string
  f_occupantEmail :: string
  f_occupantPhone :: string
  f_stayPeriod :: string
  f_leaseStartDate :: string
  f_leaseEndDate :: string
  f_status :: property_status
  f_propertyType :: "property_type option"
  f_address :: string
  f_bedrooms :: string
  f_bathrooms :: string
  f_squareFeet :: string

text \<open>The object \<open>newProperty\<close> that \<open>handleSubmit\<close> builds once the form is valid.\<close>

definition newProperty :: "env \<Rightarrow> add_form \<Rightarrow> property" where
  "newProperty e formData =
     (let today = now e;
          nextMonth = Date_new e (getFullYear e today) (getMonth e today + 1) 1
      in \<lparr> p_id = randomUUID e,
           p_userId = None,
           p_name = f_name formData,
           rent = parseFloat e (f_rent formData),
           occupant = or_undefined (f_occupant formData),
           occupantEmail = or_undefined (f_occupantEmail formData),
           occupantPhone = or_undefined (f_occupantPhone formData),
           stayPeriod = or_undefined (f_stayPeriod formData),
           leaseStartDate = or_undefined (f_leaseStartDate formData),
           leaseEndDate = or_undefined (f_leaseEndDate formData),
           p_status = f_status formData,
           propertyType = f_propertyType formData,
           address = or_undefined (f_address formData),
           bedrooms = (if truthy (f_bedrooms formData)
                       then Some (parseInt e (f_bedrooms formData)) else None),
           bathrooms = (if truthy (f_bathrooms formData)
                        then Some (parseFloat e (f_bathrooms formData)) else None),
           squareFeet = (if truthy (f_squareFeet formData)
                         then Some (parseInt e (f_squareFeet formData)) else None),
           p_createdAt = toISOString (now e),
           lastPaymentDate = None,
           nextPaymentDue = (if truthy (f_occupant formData)
                             then Some (split_T_0 (toISOString nextMonth)) else None),
           paymentStatus = (if truthy (f_occupant formData) then Pending else Paid) \<rparr>)"

text \<open>
  \<open>handleSubmit\<close>: the alert shown, if any, and the state of the parent after the callback
  \<open>onAdd\<close>.
\<close>

definition AddPropertyDialog_handleSubmit ::
  "env \<Rightarrow> add_form \<Rightarrow> (property \<Rightarrow> 's \<Rightarrow> 's) \<Rightarrow> 's \<Rightarrow> string option \<times> 's" where
  "AddPropertyDialog_handleSubmit e formData onAdd s =
     (if falsy (f_name formData) \<or> falsy (f_rent formData)
      then (Some ''Property name and rent are required'', s)
      else if f_propertyType formData = None
      then (Some ''Please select a property type'', s)
      else (None, onAdd (newProperty e formData) s))"

section \<open>The record-payment dialog (components/record-payment-dialog.tsx)\<close>

record payment_form =
  pf_amount :: string
  pf_paymentDate :: string
  pf_paymentMethod :: payment_method
  pf_receiptNumber :: string
  pf_notes :: string

definition RecordPaymentDialog_handleSubmit ::
  "env \<Rightarrow> property \<Rightarrow> payment_form \<Rightarrow> (payment \<Rightarrow> 's \<Rightarrow> 's) \<Rightarrow> 's \<Rightarrow> string option \<times> 's"
  where
  "RecordPaymentDialog_handleSubmit e property formData onRecord s =
     (if falsy (pf_amount formData) \<or> falsy (pf_paymentDate formData)
      then (Some ''Amount and payment date are required'', s)
      else
        let payment =
              \<lparr> pay_id = randomUUID e,
                pay_userId = None,
                pay_propertyId = p_id property,
                pay_propertyName = p_name property,
                occupantName = or_else (occupant property) ''Unknown'',
                amount = parseFloat e (pf_amount formData),
                paymentDate = pf_paymentDate formData,
                paymentMethod = pf_paymentMethod formData,
                pay_status = Completed,
                receiptNumber = or_undefined (pf_receiptNumber formData),
                pay_notes = or_undefined (pf_notes formData),
                pay_createdAt = toISOString (now e) \<rparr>
        in (None, onRecord payment s))"

section \<open>The send-notification dialog (components/send-notification-dialog.tsx)\<close>

record email_request =
  em_to :: string
  em_subject :: string
  em_message :: string
  em_propertyName :: string
  em_occupantName :: string

text \<open>
  The outcome of \<^verbatim>\<open>fetch("/api/send-notification", ...)\<close>: the promise rejects, or it
  resolves to a response whose \<open>ok\<close> flag is given.
\<close>

datatype fetch_result = Rejected | Response bool

definition sendEmailNotification ::
  "(email_request \<Rightarrow> fetch_result) \<Rightarrow> email_request \<Rightarrow> string + unit" where
  "sendEmailNotification fetch data =
     (case fetch data of
        Rejected \<Rightarrow> Inl ''fetch failed''
      | Response ok \<Rightarrow>
          if \<not> ok then Inl ''Failed to send email notification'' else Inr ())"

datatype send_status = Idle | Success | Error

text \<open>The state of the dialog, and what one submit does to it and to the outside.\<close>

record send_dialog =
  d_subject :: string
  d_message :: string
  d_type :: notification_type
  d_recipientEmail :: string
  isSubmitting :: bool
  sendStatus :: send_status

record send_effects =
  alert :: "string option"
  emailCalls :: "email_request list"
  dialog :: send_dialog

definition SendNotificationDialog_handleSubmit ::
  "env \<Rightarrow> (email_request \<Rightarrow> fetch_result) \<Rightarrow> property \<Rightarrow> send_dialog
     \<Rightarrow> (notification \<Rightarrow> 's \<Rightarrow> 's) \<Rightarrow> 's \<Rightarrow> send_effects \<times> 's" where
  "SendNotificationDialog_handleSubmit e fetch property d onSend s =
     (if \<not> truthy_opt (occupant property)
      then (\<lparr> alert = Some ''This property has no occupant to send notification to.'',
               emailCalls = [], dialog = d \<rparr>, s)
      else if falsy (trim (d_subject d)) \<or> falsy (trim (d_message d))
      then (\<lparr> alert = Some ''Please fill in all required fields.'',
               emailCalls = [], dialog = d \<rparr>, s)
      else
        let d1 = d\<lparr>isSubmitting := True, sendStatus := Idle\<rparr>;
            emailed = (truthy (d_recipientEmail d) \<and> truthy (trim (d_recipientEmail d)));
            request = \<lparr> em_to = d_recipientEmail d,
                        em_subject = d_subject d,
                        em_message = d_message d,
                        em_propertyName = p_name property,
                        em_occupantName = or_else (occupant property) [] \<rparr>;
            calls = (if emailed then [request] else [])
        in if emailed \<and> isl (sendEmailNotification fetch request)
           then (\<lparr> alert = None, emailCalls = calls,
                    dialog = d1\<lparr>sendStatus := Error, isSubmitting := False\<rparr> \<rparr>, s)
           else
             let notification =
                   \<lparr> n_id = randomUUID e,
                     n_userId = None,
                     n_propertyId = p_id property,
                     n_propertyName = p_name property,
                     recipientName = or_else (occupant property) [],
                     recipientEmail = or_undefined (d_recipientEmail d),
                     subject = d_subject d,
                     message = d_message d,
                     n_type = d_type d,
                     n_status = (if truthy (d_recipientEmail d) then Sent else Sent),
                     sentAt = toISOString (now e),
                     n_createdAt = toISOString (now e) \<rparr>
             in (\<lparr> alert = None, emailCalls = calls,
                     dialog = d1\<lparr>sendStatus := Success\<rparr> \<rparr>,
                 onSend notification s))"

text \<open>
  In the last two branches the occupant is a non-empty string (the first test passed), so
  \<open>or_else (occupant property) []\<close> is that string. \<open>emailCalls\<close> lists the requests handed to
  \<open>fetch\<close>. After a success the dialog closes itself 1.5 seconds later; that timer is not
  part of the model.
\<close>

section \<open>Sign-up (contexts/auth-context.tsx)\<close>

text \<open>
  What \<^verbatim>\<open>localStorage.getItem\<close> followed by \<^verbatim>\<open>JSON.parse\<close> finds under a key: nothing, a
  text whose parsing or use throws, or a document.
\<close>

datatype 'a stored = Absent | Corrupt | Stored 'a

record auth =
  auth_user :: "user option"
  realestate_users :: "account list stored"
  realestate_user :: "user stored"

record auth_result =
  success :: bool
  error :: "string option"

definition signup :: "env \<Rightarrow> string \<Rightarrow> string \<Rightarrow> string \<Rightarrow> auth \<Rightarrow> auth_result \<times> auth" where
  "signup e email password name st =
     (case realestate_users st of
        Corrupt \<Rightarrow> (\<lparr> success = False, error = Some ''An error occurred during signup'' \<rparr>, st)
      | usersData \<Rightarrow>
          let users = (case usersData of Stored us \<Rightarrow> us | _ \<Rightarrow> []);
              existingUser = find (\<lambda>u. a_email u = email) users
          in if existingUser \<noteq> None
             then (\<lparr> success = False, error = Some ''Email already registered'' \<rparr>, st)
             else
               let newUser = \<lparr> a_id = ''user_'' @ String_of_int (now e),
                               a_email = email,
                               a_password = password,
                               a_name = name,
                               a_createdAt = toISOString (now e) \<rparr>;
                   users' = users @ [newUser];
                   userToStore = \<lparr> u_id = a_id newUser,
                                   u_email = a_email newUser,
                                   u_name = a_name newUser,
                                   u_createdAt = a_createdAt newUser,
                                   isNewUser = Some True \<rparr>
               in (\<lparr> success = True, error = None \<rparr>,
                   st\<lparr>realestate_users := Stored users',
                      auth_user := Some userToStore,
                      realestate_user := Stored userToStore\<rparr>))"

section \<open>What the specification says about the two due dates\<close>

text \<open>
  Definitions that follow the words of the specification rather than the code, to
  compare the code with. Dates are written \<^verbatim>\<open>YYYY-MM-DD\<close>, the form an
  \<^verbatim>\<open><input type="date">\<close> delivers.
\<close>

definition digit_value :: "char \<Rightarrow> int option" where
  "digit_value c =
     map_of [(CHR ''0'', 0), (CHR ''1'', 1), (CHR ''2'', 2), (CHR ''3'', 3), (CHR ''4'', 4),
             (CHR ''5'', 5), (CHR ''6'', 6), (CHR ''7'', 7), (CHR ''8'', 8), (CHR ''9'', 9)] c"

fun parse_digits_from :: "int \<Rightarrow> string \<Rightarrow> int option" where
  "parse_digits_from n [] = Some n"
| "parse_digits_from n (c # cs) =
     (case digit_value c of None \<Rightarrow> None | Some v \<Rightarrow> parse_digits_from (10 * n + v) cs)"

definition parse_digits :: "string \<Rightarrow> int option" where
  "parse_digits s = (if s = [] then None else parse_digits_from 0 s)"

text \<open>Year, month (1 to 12) and day (1 to 31) of a date written \<^verbatim>\<open>YYYY-MM-DD\<close>.\<close>

definition parse_ymd :: "string \<Rightarrow> (int \<times> int \<times> int) option" where
  "parse_ymd s =
     (if length s = 10 \<and> s ! 4 = CHR ''-'' \<and> s ! 7 = CHR ''-''
      then case (parse_digits (take 4 s), parse_digits (take 2 (drop 5 s)),
                 parse_digits (drop 8 s)) of
             (Some y, Some m, Some d) \<Rightarrow>
               if 1 \<le> m \<and> m \<le> 12 \<and> 1 \<le> d \<and> d \<le> 31 then Some (y, m, d) else None
           | _ \<Rightarrow> None
      else None)"

text \<open>A calendar date written \<^verbatim>\<open>YYYY-MM-DD\<close>; \<open>month\<close> counts from 0 and may carry.\<close>

definition date_string :: "int \<Rightarrow> int \<Rightarrow> int \<Rightarrow> string" where
  "date_string year month date =
     split_T_0 (toISOString (MakeDate (MakeDay year month date) 0))"


text \<open>
  Stated from the specification: "nextPaymentDue = first day of following month", the month
  after the one the property is created in, on the user's calendar.
\<close>

definition spec_first_of_following_month :: "env \<Rightarrow> string" where
  "spec_first_of_following_month e =
     date_string (getFullYear e (now e)) (getMonth e (now e) + 1) 1"

text \<open>
  "Exactly one calendar month after", said of the day a payment is recorded on rather than
  of the payment date, and written out on the calendar itself, without \<^verbatim>\<open>Date\<close>. A date
  is a year, a month counted from 0 and a day of the month; one month after it is the same
  day of the following month, and December is followed by January of the next year.
\<close>

definition daysInMonth :: "int \<Rightarrow> int \<Rightarrow> int" where
  "daysInMonth year month =
     [31, 28 + (if DaysInYear year = 366 then 1 else 0), 31, 30, 31, 30, 31, 31, 30, 31, 30, 31]
       ! nat month"

definition is_date :: "int \<times> int \<times> int \<Rightarrow> bool" where
  "is_date ymd =
     (case ymd of (y, m, d) \<Rightarrow> 0 \<le> m \<and> m \<le> 11 \<and> 1 \<le> d \<and> d \<le> daysInMonth y m)"

definition one_month_after :: "int \<times> int \<times> int \<Rightarrow> int \<times> int \<times> int" where
  "one_month_after ymd =
     (case ymd of (y, m, d) \<Rightarrow> if m = 11 then (y + 1, 0, d) else (y, m + 1, d))"

text \<open>The date written \<^verbatim>\<open>YYYY-MM-DD\<close>.\<close>

definition calendar_date :: "int \<times> int \<times> int \<Rightarrow> string" where
  "calendar_date ymd =
     (case ymd of (y, m, d) \<Rightarrow> isoYear y @ ''-'' @ pad 2 (m + 1) @ ''-'' @ pad 2 d)"

text \<open>The date that the user's calendar shows at the instant \<open>t\<close>.\<close>

definition local_date :: "env \<Rightarrow> int \<Rightarrow> int \<times> int \<times> int" where
  "local_date e t =
     (let lt = LocalTime e t in (YearFromTime lt, MonthFromTime lt, DateFromTime lt))"


section \<open>Concrete inputs\<close>

text \<open>
  A runtime for the examples: \<^verbatim>\<open>new Date("YYYY-MM-DD")\<close> is midnight UTC of that day,
  and the number parsers read a string of digits.
\<close>

definition ex_dateParse :: "string \<Rightarrow> int option" where
  "ex_dateParse s =
     (case parse_ymd s of
        None \<Rightarrow> None
      | Some (y, m, d) \<Rightarrow> Some (MakeDate (MakeDay y (m - 1) d) 0))"

definition ex_parseNumber :: "string \<Rightarrow> number" where
  "ex_parseNumber s = (case parse_digits s of None \<Rightarrow> NaN | Some n \<Rightarrow> Num (of_int n))"

text \<open>A browser on UTC, at 2025-06-15T12:00:00Z.\<close>

definition ex_env :: env where
  "ex_env =
     \<lparr> now = MakeDate (MakeDay 2025 5 15) (MakeTime 12 0 0 0),
       LocalTZA = (\<lambda>t isUTC. 0),
       randomUUID = ''uuid-1'',
       dateParse = ex_dateParse,
       parseFloat = ex_parseNumber,
       parseInt = ex_parseNumber \<rparr>"

text \<open>The same browser at midnight, 2025-06-15T00:00:00Z.\<close>

definition ex_env_midnight :: env where
  "ex_env_midnight = ex_env\<lparr>now := MakeDate (MakeDay 2025 5 15) 0\<rparr>"

text \<open>A browser in Lagos (UTC+1, no daylight saving), at 2025-03-15T10:00 local time.\<close>

definition ex_env_lagos :: env where
  "ex_env_lagos =
     \<lparr> now = MakeDate (MakeDay 2025 2 15) (MakeTime 9 0 0 0),
       LocalTZA = (\<lambda>t isUTC. 3600000),
       randomUUID = ''uuid-2'',
       dateParse = ex_dateParse,
       parseFloat = ex_parseNumber,
       parseInt = ex_parseNumber \<rparr>"

text \<open>
  The browser in Lagos half an hour after midnight on 2025-03-15 (2025-03-14T23:30Z), and
  the browser on UTC at noon on 2024-01-31.
\<close>

definition ex_env_lagos_night :: env where
  "ex_env_lagos_night =
     ex_env_lagos\<lparr>now := MakeDate (MakeDay 2025 2 14) (MakeTime 23 30 0 0)\<rparr>"

definition ex_env_january :: env where
  "ex_env_january = ex_env\<lparr>now := MakeDate (MakeDay 2024 0 31) (MakeTime 12 0 0 0)\<rparr>"

definition ex_user :: user where
  "ex_user =
     \<lparr> u_id = ''user_1'', u_email = ''owner@example.com'', u_name = ''Owner'',
       u_createdAt = ''2025-01-01T00:00:00.000Z'', isNewUser = Some False \<rparr>"

definition ex_account :: account where
  "ex_account =
     \<lparr> a_id = ''user_1'', a_email = ''owner@example.com'', a_password = ''secret1'',
       a_name = ''Owner'', a_createdAt = ''2025-01-01T00:00:00.000Z'' \<rparr>"

definition ex_auth :: auth where
  "ex_auth =
     \<lparr> auth_user = None, realestate_users = Stored [ex_account], realestate_user = Absent \<rparr>"

text \<open>The form of an occupied flat, and the same form with no occupant.\<close>

definition ex_add_form :: add_form where
  "ex_add_form =
     \<lparr> f_name = ''Unit 1'', f_rent = ''150000'', f_occupant = ''Jane'',
       f_occupantEmail = ''jane@example.com'', f_occupantPhone = [], f_stayPeriod = [],
       f_leaseStartDate = [], f_leaseEndDate = ''2025-06-25'', f_status = Occupied,
       f_propertyType = Some Apartment, f_address = [], f_bedrooms = [], f_bathrooms = [],
       f_squareFeet = [] \<rparr>"

definition ex_add_form_vacant :: add_form where
  "ex_add_form_vacant =
     ex_add_form\<lparr>f_occupant := [], f_occupantEmail := [], f_leaseEndDate := [],
                 f_status := Vacant\<rparr>"

text \<open>A signed-in user with nothing stored yet, and the dashboard after the flat is added.\<close>

definition ex_empty :: dashboard where
  "ex_empty =
     \<lparr> user = Some ex_user, properties = [], notifications = [], payments = [],
       isLoading = False, realestate_properties = Map.empty,
       realestate_notifications = Map.empty, realestate_payments = Map.empty \<rparr>"

definition ex_property :: property where
  "ex_property = (newProperty ex_env ex_add_form)\<lparr>p_userId := Some ''user_1''\<rparr>"

definition ex_dashboard :: dashboard where
  "ex_dashboard =
     ex_empty\<lparr>properties := [ex_property],
              realestate_properties := [''user_1'' \<mapsto> [ex_property]]\<rparr>"

text \<open>A second, vacant property, and a dashboard holding both.\<close>

definition ex_property2 :: property where
  "ex_property2 =
     (newProperty ex_env_lagos ex_add_form_vacant)\<lparr>p_userId := Some ''user_1''\<rparr>"

definition ex_dashboard2 :: dashboard where
  "ex_dashboard2 =
     ex_empty\<lparr>properties := [ex_property, ex_property2],
              realestate_properties := [''user_1'' \<mapsto> [ex_property, ex_property2]]\<rparr>"

text \<open>A payment of the rent, dated 2025-03-01, as the record-payment dialog hands it over.\<close>

definition ex_payment_form :: payment_form where
  "ex_payment_form =
     \<lparr> pf_amount = ''150000'', pf_paymentDate = ''2025-03-01'',
       pf_paymentMethod = Bank_transfer, pf_receiptNumber = [], pf_notes = [] \<rparr>"

definition ex_payment :: payment where
  "ex_payment =
     \<lparr> pay_id = ''uuid-1'', pay_userId = None, pay_propertyId = ''uuid-1'',
       pay_propertyName = ''Unit 1'', occupantName = ''Jane'', amount = Num 150000,
       paymentDate = ''2025-03-01'', paymentMethod = Bank_transfer, pay_status = Completed,
       receiptNumber = None, pay_notes = None,
       pay_createdAt = ''2025-06-15T12:00:00.000Z'' \<rparr>"

text \<open>
  A session from an empty store: the flat is added through the add dialog, a payment is
  recorded through the record-payment dialog, and the dashboard is loaded again.
\<close>

definition ex_added :: dashboard where
  "ex_added = snd (AddPropertyDialog_handleSubmit ex_env ex_add_form handleAddProperty ex_empty)"

definition ex_recorded :: dashboard where
  "ex_recorded =
     snd (RecordPaymentDialog_handleSubmit ex_env ex_property ex_payment_form
            (handleRecordPayment ex_env) ex_added)"

definition ex_reloaded :: dashboard where
  "ex_reloaded = DashboardPage_mount ex_recorded"

text \<open>A reminder to the occupant, with a recipient address.\<close>

definition ex_send_dialog :: send_dialog where
  "ex_send_dialog =
     \<lparr> d_subject = ''Rent'', d_message = ''Rent is due'', d_type = Reminder,
       d_recipientEmail = ''jane@example.com'', isSubmitting = False, sendStatus = Idle \<rparr>"

section \<open>Properties of the code\<close>

subsection \<open>The calendar\<close>

text \<open>
  \<open>YearFromTime\<close> is the year ECMA-262 defines: the largest \<open>y\<close> whose first instant is not
  after \<open>t\<close>. A year has 365 or 366 days.
\<close>

lemma div_step: "0 < (n::int) \<Longrightarrow> (x + 1) div n = x div n \<or> (x + 1) div n = x div n + 1"
proof -
  assume n: "0 < n"
  have le: "x div n \<le> (x + 1) div n" using n by (simp add: zdiv_mono1)
  have "x + 1 \<le> x + n" using n by simp
  then have "(x + 1) div n \<le> (x + n) div n" using n by (rule zdiv_mono1)
  also have "\<dots> = x div n + 1" using n by simp
  finally show ?thesis using le by arith
qed

lemma DayFromYear_step:
  "DayFromYear y + 365 \<le> DayFromYear (y + 1)" "DayFromYear (y + 1) \<le> DayFromYear y + 366"
proof -
  define a where "a = (y - 1969) div 4"
  define a' where "a' = (y + 1 - 1969) div 4"
  define b where "b = (y - 1901) div 100"
  define b' where "b' = (y + 1 - 1901) div 100"
  define c where "c = (y - 1601) div 400"
  define c' where "c' = (y + 1 - 1601) div 400"
  have "(y - 1901) div 100 = ((y - 1901) div 4) div 25"
    and "(y + 1 - 1901) div 100 = ((y + 1 - 1901) div 4) div 25"
    by (simp_all add: zdiv_zmult2_eq)
  moreover have "(y - 1901) div 4 = a + 17" and "(y + 1 - 1901) div 4 = a' + 17"
    unfolding a_def a'_def by presburger+
  ultimately have b: "b = (a + 17) div 25" "b' = (a' + 17) div 25"
    unfolding b_def b'_def by simp_all
  have "(y - 1601) div 400 = ((y - 1601) div 100) div 4"
    and "(y + 1 - 1601) div 400 = ((y + 1 - 1601) div 100) div 4"
    by (simp_all add: zdiv_zmult2_eq)
  moreover have "(y - 1601) div 100 = (y - 1901 + 3 * 100) div 100"
    and "(y + 1 - 1601) div 100 = (y + 1 - 1901 + 3 * 100) div 100"
    by simp_all
  then have "(y - 1601) div 100 = b + 3" and "(y + 1 - 1601) div 100 = b' + 3"
    unfolding b_def b'_def by (simp_all only: div_mult_self1 [of 100 "y - 1901" 3] div_mult_self1 [of 100 "y + 1 - 1901" 3])
  ultimately have c: "c = (b + 3) div 4" "c' = (b' + 3) div 4"
    unfolding c_def c'_def by simp_all
  have "y + 1 - 1969 = (y - 1969) + 1" by simp
  with div_step [of 4 "y - 1969"] have a: "a' = a \<or> a' = a + 1"
    unfolding a_def a'_def by simp
  have ba: "b' = b \<or> b' = b + 1 \<and> a' = a + 1"
  proof -
    from a show ?thesis
    proof
      assume "a' = a" then show ?thesis using b by simp
    next
      assume "a' = a + 1"
      with div_step [of 25 "a + 17"] b show ?thesis by (simp add: add.commute add.left_commute)
    qed
  qed
  have cb: "c' = c \<or> c' = c + 1 \<and> b' = b + 1"
  proof -
    from ba have "b' = b \<or> b' = b + 1" by blast
    then show ?thesis
    proof
      assume "b' = b" then show ?thesis using c by simp
    next
      assume "b' = b + 1"
      with div_step [of 4 "b + 3"] c show ?thesis by (simp add: add.commute add.left_commute)
    qed
  qed
  have e: "DayFromYear y = 365 * (y - 1970) + a - b + c"
    "DayFromYear (y + 1) = 365 * (y + 1 - 1970) + a' - b' + c'"
    unfolding DayFromYear_def a_def a'_def b_def b'_def c_def c'_def by simp_all
  from a ba cb show "DayFromYear y + 365 \<le> DayFromYear (y + 1)"
    unfolding e by auto
  from a ba cb show "DayFromYear (y + 1) \<le> DayFromYear y + 366"
    unfolding e by auto
qed
lemma div_floor_bounds:
  assumes "0 < (n::int)"
  shows "n * (t div n) \<le> t" and "t < n * (t div n + 1)"
proof -
  have eq: "n * (t div n) + t mod n = t" by (rule mult_div_mod_eq)
  have m: "0 \<le> t mod n" "t mod n < n" using assms by simp_all
  from eq m(1) show "n * (t div n) \<le> t" by linarith
  have "n * (t div n + 1) = n * (t div n) + n" by (simp add: algebra_simps)
  with eq m(2) show "t < n * (t div n + 1)" by linarith
qed

lemma DayFromYear_1970: "DayFromYear 1970 = 0"
  by (simp add: DayFromYear_def)

lemma DayFromYear_upper: "0 \<le> k \<Longrightarrow> DayFromYear (1970 + k) \<le> 366 * k"
proof (induction k rule: int_ge_induct)
  case base
  then show ?case by (simp add: DayFromYear_1970)
next
  case (step i)
  have "DayFromYear (1970 + (i + 1)) = DayFromYear ((1970 + i) + 1)" by (simp add: add.assoc)
  also have "\<dots> \<le> DayFromYear (1970 + i) + 366" by (rule DayFromYear_step)
  finally show ?case using step by simp
qed

lemma DayFromYear_lower: "k \<le> 0 \<Longrightarrow> DayFromYear (1970 + k) \<le> 365 * k"
proof (induction k rule: int_le_induct)
  case base
  then show ?case by (simp add: DayFromYear_1970)
next
  case (step i)
  have "DayFromYear ((1970 + (i - 1)) + 1) = DayFromYear (1970 + i)" by simp
  with DayFromYear_step(1) [of "1970 + (i - 1)"]
  have "DayFromYear (1970 + (i - 1)) + 365 \<le> DayFromYear (1970 + i)" by simp
  with step show ?case by simp
qed

lemma year_search_spec:
  "DayFromYear y \<le> d \<Longrightarrow>
     DayFromYear (year_search d y) \<le> d \<and> d < DayFromYear (year_search d y + 1)"
proof (induction d y rule: year_search.induct)
  case (1 d y)
  show ?case
  proof (cases "DayFromYear (y + 1) \<le> d")
    case True
    with "1.IH" show ?thesis by (subst (1 2) year_search.simps) simp
  next
    case False
    with "1.prems" show ?thesis by (subst (1 2) year_search.simps) simp
  qed
qed

lemma YearFromTime_spec:
  "TimeFromYear (YearFromTime t) \<le> t \<and> t < TimeFromYear (YearFromTime t + 1)"
proof -
  define d where "d = Day t"
  define y0 where "y0 = 1970 + (if 0 \<le> d then d div 366 else d div 365)"
  have "DayFromYear y0 \<le> d"
  proof (cases "0 \<le> d")
    case True
    then have "0 \<le> d div 366" by simp
    from DayFromYear_upper [OF this] have "DayFromYear (1970 + d div 366) \<le> 366 * (d div 366)" .
    also have "\<dots> \<le> d" by (rule div_floor_bounds) simp
    finally show ?thesis using True by (simp add: y0_def)
  next
    case False
    then have "d \<le> 0" by simp
    then have "d div 365 \<le> 0 div 365" by (rule zdiv_mono1) simp
    then have "d div 365 \<le> 0" by simp
    from DayFromYear_lower [OF this] have "DayFromYear (1970 + d div 365) \<le> 365 * (d div 365)" .
    also have "\<dots> \<le> d" by (rule div_floor_bounds) simp
    finally show ?thesis using False by (simp add: y0_def)
  qed
  from year_search_spec [OF this]
  have "DayFromYear (year_search d y0) \<le> d \<and> d < DayFromYear (year_search d y0 + 1)" .
  moreover have "YearFromTime t = year_search d y0"
    by (simp add: YearFromTime_def d_def y0_def Let_def)
  ultimately have s: "DayFromYear (YearFromTime t) \<le> d" "d < DayFromYear (YearFromTime t + 1)"
    by simp_all
  have "msPerDay * DayFromYear (YearFromTime t) \<le> msPerDay * d"
    using s(1) by (simp add: msPerDay_def)
  also have "\<dots> \<le> t" unfolding d_def Day_def by (rule div_floor_bounds) (simp add: msPerDay_def)
  finally have lo: "TimeFromYear (YearFromTime t) \<le> t" by (simp add: TimeFromYear_def)
  have "d + 1 \<le> DayFromYear (YearFromTime t + 1)" using s(2) by simp
  then have "msPerDay * (d + 1) \<le> msPerDay * DayFromYear (YearFromTime t + 1)"
    by (simp add: msPerDay_def)
  moreover have "t < msPerDay * (d + 1)"
    unfolding d_def Day_def by (rule div_floor_bounds) (simp add: msPerDay_def)
  ultimately have "t < TimeFromYear (YearFromTime t + 1)" by (simp add: TimeFromYear_def)
  with lo show ?thesis ..
qed





















subsection \<open>Helper facts\<close>

lemma storage_keys_distinct:
  "storageKeyProperties u \<noteq> storageKeyNotifications v"
  "storageKeyProperties u \<noteq> storageKeyPayments v"
  "storageKeyNotifications u \<noteq> storageKeyPayments v"
  "storageKeyProperties u = storageKeyProperties v \<longleftrightarrow> u = v"
  "storageKeyNotifications u = storageKeyNotifications v \<longleftrightarrow> u = v"
  "storageKeyPayments u = storageKeyPayments v \<longleftrightarrow> u = v"
  by (simp_all add: storageKeyProperties_def storageKeyNotifications_def storageKeyPayments_def)

lemma falsy_iff: "falsy s \<longleftrightarrow> \<not> truthy s"
  by (simp add: falsy_def truthy_def)

lemma filter_one_split:
  "length (filter P xs) = 1 \<Longrightarrow>
     \<exists>ys p zs. xs = ys @ p # zs \<and> P p \<and> (\<forall>q \<in> set ys \<union> set zs. \<not> P q)"
proof (induction xs)
  case Nil
  then show ?case by simp
next
  case (Cons x xs)
  show ?case
  proof (cases "P x")
    case True
    with Cons.prems have "filter P xs = []" by simp
    then have "\<forall>q \<in> set xs. \<not> P q" by (simp add: filter_empty_conv)
    with True have "x # xs = [] @ x # xs \<and> P x \<and> (\<forall>q \<in> set [] \<union> set xs. \<not> P q)" by simp
    then show ?thesis by blast
  next
    case False
    with Cons.prems have "length (filter P xs) = 1" by simp
    from Cons.IH [OF this] obtain ys p zs
      where "xs = ys @ p # zs" "P p" "\<forall>q \<in> set ys \<union> set zs. \<not> P q" by blast
    with False have "x # xs = (x # ys) @ p # zs \<and> P p \<and> (\<forall>q \<in> set (x # ys) \<union> set zs. \<not> P q)"
      by simp
    then show ?thesis by blast
  qed
qed

lemma handleDeleteProperty_fields:
  assumes "user st = Some u"
  shows "properties (handleDeleteProperty i st) = filter (\<lambda>p. p_id p \<noteq> i) (properties st)"
    and "realestate_properties (handleDeleteProperty i st)
           = (realestate_properties st)(u_id u \<mapsto> filter (\<lambda>p. p_id p \<noteq> i) (properties st))"
    and "payments (handleDeleteProperty i st) = payments st"
    and "notifications (handleDeleteProperty i st) = notifications st"
    and "realestate_payments (handleDeleteProperty i st) = realestate_payments st"
    and "realestate_notifications (handleDeleteProperty i st) = realestate_notifications st"
    and "user (handleDeleteProperty i st) = user st"
  using assms by (simp_all add: handleDeleteProperty_def Let_def)

lemma ex_ids: "p_id ex_property = ''uuid-1''" "p_id ex_property2 = ''uuid-2''"
  by (simp_all add: ex_property_def ex_property2_def newProperty_def Let_def ex_env_def
        ex_env_lagos_def)

lemma newProperty_fields:
  "occupant (newProperty e formData) = or_undefined (f_occupant formData)"
  "paymentStatus (newProperty e formData) = (if truthy (f_occupant formData) then Pending else Paid)"
  "nextPaymentDue (newProperty e formData) =
     (if truthy (f_occupant formData)
      then Some (split_T_0 (toISOString
             (Date_new e (getFullYear e (now e)) (getMonth e (now e) + 1) 1)))
      else None)"
  by (simp_all add: newProperty_def Let_def)

lemma handleAddProperty_properties:
  "user st = Some u \<Longrightarrow>
     properties (handleAddProperty p st) = properties st @ [p\<lparr>p_userId := Some (u_id u)\<rparr>]"
  by (simp add: handleAddProperty_def Let_def)

lemma ex_empty_fields:
  "user ex_empty = Some ex_user" "properties ex_empty = []" "notifications ex_empty = []"
  "payments ex_empty = []"
  by (simp_all add: ex_empty_def)

lemma ex_add_form_fields:
  "f_name ex_add_form = ''Unit 1''" "f_rent ex_add_form = ''150000''"
  "f_occupant ex_add_form = ''Jane''" "f_propertyType ex_add_form = Some Apartment"
  "f_name ex_add_form_vacant = ''Unit 1''" "f_rent ex_add_form_vacant = ''150000''"
  "f_occupant ex_add_form_vacant = []" "f_propertyType ex_add_form_vacant = Some Apartment"
  by (simp_all add: ex_add_form_def ex_add_form_vacant_def)

lemma ex_occupants: "occupant ex_property = Some ''Jane''" "occupant ex_property2 = None"
  by (simp_all add: ex_property_def ex_property2_def newProperty_fields ex_add_form_fields
        or_undefined_def truthy_def falsy_def)

lemma getDaysUntilExpiry_valid:
  assumes "s \<noteq> []" and "dateParse e s = Some t"
  shows "getDaysUntilExpiry e (Some s)
           = Some (Num (of_int \<lceil>(of_int (t - now e) :: rat) / of_int msPerDay\<rceil>))"
  using assms by (simp add: getDaysUntilExpiry_def truthy_def falsy_def getTime_def msPerDay_def)

lemma isLeaseExpiringSoon_valid:
  assumes "s \<noteq> []" and "dateParse e s = Some t"
  shows "isLeaseExpiringSoon_default e (Some s)
           \<longleftrightarrow> 0 < \<lceil>(of_int (t - now e) :: rat) / of_int msPerDay\<rceil>
               \<and> \<lceil>(of_int (t - now e) :: rat) / of_int msPerDay\<rceil> \<le> 30"
proof -
  have "(of_int \<lceil>(of_int (t - now e) :: rat) / of_int msPerDay\<rceil> :: rat) \<le> 30
          \<longleftrightarrow> \<lceil>(of_int (t - now e) :: rat) / of_int msPerDay\<rceil> \<le> 30"
    using of_int_le_iff [where ?'a = rat, of "\<lceil>(of_int (t - now e) :: rat) / of_int msPerDay\<rceil>" 30]
    by simp
  then show ?thesis
    by (simp add: isLeaseExpiringSoon_default_def isLeaseExpiringSoon_def
        getDaysUntilExpiry_valid [OF assms])
qed

lemma isLeaseExpiringSoon_window:
  assumes "s \<noteq> []" and "dateParse e s = Some t"
  shows "isLeaseExpiringSoon_default e (Some s) \<longleftrightarrow> now e < t \<and> t - now e \<le> 30 * msPerDay"
proof -
  define x :: rat where "x = of_int (t - now e) / of_int msPerDay"
  have pos: "(0::rat) < of_int msPerDay" by (simp add: msPerDay_def)
  have "0 < \<lceil>x\<rceil> \<longleftrightarrow> 0 < x" by (rule zero_less_ceiling)
  also have "\<dots> \<longleftrightarrow> (0::rat) < of_int (t - now e)"
    unfolding x_def using pos by (simp add: zero_less_divide_iff)
  also have "\<dots> \<longleftrightarrow> now e < t" by simp
  finally have lo: "0 < \<lceil>x\<rceil> \<longleftrightarrow> now e < t" .
  have "\<lceil>x\<rceil> \<le> 30 \<longleftrightarrow> x \<le> of_int 30" by (rule ceiling_le_iff)
  also have "\<dots> \<longleftrightarrow> (of_int (t - now e) :: rat) \<le> of_int 30 * of_int msPerDay"
    unfolding x_def using pos by (simp add: pos_divide_le_eq)
  also have "\<dots> \<longleftrightarrow> (of_int (t - now e) :: rat) \<le> of_int (30 * msPerDay)"
    by simp
  also have "\<dots> \<longleftrightarrow> t - now e \<le> 30 * msPerDay" by (rule of_int_le_iff)
  finally have hi: "\<lceil>x\<rceil> \<le> 30 \<longleftrightarrow> t - now e \<le> 30 * msPerDay" .
  show ?thesis
    using isLeaseExpiringSoon_valid [OF assms] lo hi unfolding x_def by simp
qed

lemma ex_midnight:
  "now ex_env_midnight = 1749945600000"
  "dateParse ex_env_midnight ''2025-06-25'' = Some 1750809600000"
  "dateParse ex_env_midnight ''2025-07-16'' = Some 1752624000000"
  "dateParse ex_env_midnight ''2025-06-01'' = Some 1748736000000"
  by code_simp+

lemma handleRecordPayment_fields:
  assumes "user st = Some u"
  shows "properties (handleRecordPayment e payment st)
           = map (\<lambda>p. if p_id p = pay_propertyId payment
                     then p\<lparr>paymentStatus := Paid,
                            lastPaymentDate := Some (paymentDate payment),
                            nextPaymentDue := Some (split_T_0 (toISOString
                              (setMonth e (now e) (getMonth e (now e) + 1))))\<rparr>
                     else p)
               (properties st)"
    and "payments (handleRecordPayment e payment st)
           = payments st @ [PaymentRow (payment\<lparr>pay_userId := Some (u_id u)\<rparr>)]"
    and "realestate_payments (handleRecordPayment e payment st)
           = (realestate_payments st)
               (u_id u \<mapsto> map PropertyRow (properties (handleRecordPayment e payment st)))"
    and "realestate_properties (handleRecordPayment e payment st) = realestate_properties st"
    and "user (handleRecordPayment e payment st) = user st"
  using assms by (simp_all add: handleRecordPayment_def Let_def)

lemma ex_dates:
  "split_T_0 (toISOString (setMonth ex_env (now ex_env) (getMonth ex_env (now ex_env) + 1)))
     = ''2025-07-15''"
  "toISOString (now ex_env) = ''2025-06-15T12:00:00.000Z''"
  "split_T_0 (toISOString (Date_new ex_env (getFullYear ex_env (now ex_env))
       (getMonth ex_env (now ex_env) + 1) 1)) = ''2025-07-01''"
  "parse_ymd ''2025-03-01'' = Some (2025, 3, 1)"
  "date_string 2025 3 1 = ''2025-04-01''"
  "ex_parseNumber ''150000'' = Num 150000"
  by code_simp+


lemma ex_dates_lagos:
  "split_T_0 (toISOString (Date_new ex_env_lagos (getFullYear ex_env_lagos (now ex_env_lagos))
       (getMonth ex_env_lagos (now ex_env_lagos) + 1) 1)) = ''2025-03-31''"
  "spec_first_of_following_month ex_env_lagos = ''2025-04-01''"
  "toISOString (now ex_env_lagos) = ''2025-03-15T09:00:00.000Z''"
  "toISOString (LocalTime ex_env_lagos (now ex_env_lagos)) = ''2025-03-15T10:00:00.000Z''"
  by code_simp+

lemma ex_recording_dates:
  "local_date ex_env (now ex_env) = (2025, 5, 15)"
  "local_date ex_env_lagos (now ex_env_lagos) = (2025, 2, 15)"
  "local_date ex_env_lagos_night (now ex_env_lagos_night) = (2025, 2, 15)"
  "local_date ex_env_january (now ex_env_january) = (2024, 0, 31)"
  by code_simp+

lemma ex_next_month:
  "one_month_after (2025, 5, 15) = (2025, 6, 15)" "is_date (2025, 6, 15)"
  "calendar_date (2025, 6, 15) = ''2025-07-15''"
  "one_month_after (2025, 2, 15) = (2025, 3, 15)" "is_date (2025, 3, 15)"
  "calendar_date (2025, 3, 15) = ''2025-04-15''"
  "one_month_after (2024, 0, 31) = (2024, 1, 31)" "daysInMonth 2024 1 = 29"
  by code_simp+


lemma ex_slips:
  "split_T_0 (toISOString (setMonth ex_env_lagos_night (now ex_env_lagos_night)
     (getMonth ex_env_lagos_night (now ex_env_lagos_night) + 1))) = ''2025-04-14''"
  "split_T_0 (toISOString (setMonth ex_env_january (now ex_env_january)
     (getMonth ex_env_january (now ex_env_january) + 1))) = ''2024-03-02''"
  "toISOString (now ex_env_lagos_night) = ''2025-03-14T23:30:00.000Z''"
  "toISOString (now ex_env_january) = ''2024-01-31T12:00:00.000Z''"
  by code_simp+

lemma ex_dashboard_fields:
  "user ex_dashboard = Some ex_user" "properties ex_dashboard = [ex_property]"
  "payments ex_dashboard = []" "notifications ex_dashboard = []"
  "realestate_properties ex_dashboard = [''user_1'' \<mapsto> [ex_property]]"
  "realestate_payments ex_dashboard = Map.empty"
  "realestate_notifications ex_dashboard = Map.empty"
  by (simp_all add: ex_dashboard_def ex_empty_def)

lemma ex_payment_fields:
  "pay_propertyId ex_payment = ''uuid-1''" "paymentDate ex_payment = ''2025-03-01''"
  "pay_status ex_payment = Completed"
  by (simp_all add: ex_payment_def)

lemma ex_user_id: "u_id ex_user = ''user_1''"
  by (simp add: ex_user_def)

lemma ex_property_fields:
  "paymentStatus ex_property = Pending" "nextPaymentDue ex_property = Some ''2025-07-01''"
  "p_status ex_property = Occupied" "p_name ex_property = ''Unit 1''"
  by (simp_all add: ex_property_def newProperty_fields ex_add_form_fields truthy_def falsy_def ex_dates)
     (simp_all add: newProperty_def Let_def ex_add_form_def)

lemma trim_empty: "trim [] = []"
  by (simp add: trim_def strip.simps leading_def whiteSpace_def startsWith_def)

lemma ex_trims:
  "trim ''Rent'' = ''Rent''" "trim ''Rent is due'' = ''Rent is due''"
  "trim ''jane@example.com'' = ''jane@example.com''"
  "trim ''  Rent is due  '' = ''Rent is due''"
  "trim [CHR 0xC2, CHR 0xA0] = []"
  "trim [CHR 0xEF, CHR 0xBB, CHR 0xBF, CHR ''a'', CHR 0xE2, CHR 0x80, CHR 0x83] = ''a''"
  by code_simp+

lemma email_failure_skips_onSend:
  assumes occ: "truthy_opt (occupant property)"
    and subj: "truthy (trim (d_subject d))" and msg: "truthy (trim (d_message d))"
    and email: "truthy (d_recipientEmail d)" "truthy (trim (d_recipientEmail d))"
    and fail: "\<forall>r. fetch r = Rejected \<or> fetch r = Response False"
  shows "snd (SendNotificationDialog_handleSubmit e fetch property d onSend s) = s"
    and "sendStatus (dialog (fst (SendNotificationDialog_handleSubmit e fetch property d onSend s)))
           = Error"
proof -
  have "isl (sendEmailNotification fetch r)" for r
    using fail [rule_format, of r] by (auto simp: sendEmailNotification_def)
  then show "snd (SendNotificationDialog_handleSubmit e fetch property d onSend s) = s"
    and "sendStatus (dialog (fst (SendNotificationDialog_handleSubmit e fetch property d onSend s)))
           = Error"
    using occ subj msg email
    by (simp_all add: falsy_iff SendNotificationDialog_handleSubmit_def Let_def)
qed

lemma ex_send_dialog_truthy:
  "truthy_opt (occupant ex_property)"
  "truthy (trim (d_subject ex_send_dialog))" "truthy (trim (d_message ex_send_dialog))"
  "truthy (d_recipientEmail ex_send_dialog)" "truthy (trim (d_recipientEmail ex_send_dialog))"
  by (simp_all add: ex_occupants truthy_opt_def truthy_def falsy_def ex_send_dialog_def ex_trims)

lemma ex_added_eq: "ex_added = ex_dashboard"
  by (simp add: ex_added_def AddPropertyDialog_handleSubmit_def ex_add_form_fields truthy_def falsy_def
      handleAddProperty_def ex_empty_fields Let_def ex_dashboard_def ex_property_def ex_user_id)
     (simp add: ex_empty_def)

lemma ex_dialog_payment:
  "RecordPaymentDialog_handleSubmit ex_env ex_property ex_payment_form onRecord s
     = (None, onRecord ex_payment s)"
proof -
  have "randomUUID ex_env = ''uuid-1''" "parseFloat ex_env = ex_parseNumber"
    by (simp_all add: ex_env_def)
  then show ?thesis
    by (simp add: RecordPaymentDialog_handleSubmit_def ex_payment_form_def truthy_def falsy_def Let_def
        ex_payment_def ex_ids ex_property_fields ex_occupants or_else_def or_undefined_def
        ex_dates)
qed

lemma RecordPaymentDialog_completed:
  "RecordPaymentDialog_handleSubmit e property formData (\<lambda>p s. p # s) [] = (None, ps)
     \<Longrightarrow> map pay_status ps = [Completed]"
  by (auto simp: RecordPaymentDialog_handleSubmit_def Let_def split: if_splits)

lemma handleRecordPayment_keeps_completed:
  assumes "user st = Some u"
    and "\<forall>r \<in> set (payments st). row_status r = ''completed''"
    and "pay_status payment = Completed"
  shows "\<forall>r \<in> set (payments (handleRecordPayment e payment st)). row_status r = ''completed''"
  using assms by (simp add: handleRecordPayment_fields(2) [OF assms(1)] row_status_def)

subsection \<open>Deleting a property\<close>

text \<open>
  C6. For a signed-in user and an id that occurs exactly once among the user's properties,
  \<open>handleDeleteProperty\<close> removes that one property: the list before and after it is kept
  as it is, in the React state and in the stored document, and the payments and the
  notifications, in the state and in the store, are unchanged.
\<close>

theorem delete_removes_exactly_one:
  assumes u: "user st = Some u"
    and once: "length (filter (\<lambda>p. p_id p = i) (properties st)) = 1"
  shows "\<exists>before p after.
           properties st = before @ p # after \<and> p_id p = i
           \<and> (\<forall>q \<in> set before \<union> set after. p_id q \<noteq> i)
           \<and> properties (handleDeleteProperty i st) = before @ after
           \<and> realestate_properties (handleDeleteProperty i st)
               = (realestate_properties st)(u_id u \<mapsto> before @ after)
           \<and> payments (handleDeleteProperty i st) = payments st
           \<and> notifications (handleDeleteProperty i st) = notifications st
           \<and> realestate_payments (handleDeleteProperty i st) = realestate_payments st
           \<and> realestate_notifications (handleDeleteProperty i st) = realestate_notifications st
           \<and> user (handleDeleteProperty i st) = user st"
proof -
  from filter_one_split [OF once] obtain before p after
    where split: "properties st = before @ p # after" "p_id p = i"
      and others: "\<forall>q \<in> set before \<union> set after. p_id q \<noteq> i" by blast
  from others have "filter (\<lambda>p. p_id p \<noteq> i) before = before" "filter (\<lambda>p. p_id p \<noteq> i) after = after"
    by (simp_all add: filter_id_conv)
  with split have rest: "filter (\<lambda>p. p_id p \<noteq> i) (properties st) = before @ after" by simp
  have "properties st = before @ p # after \<and> p_id p = i
           \<and> (\<forall>q \<in> set before \<union> set after. p_id q \<noteq> i)
           \<and> properties (handleDeleteProperty i st) = before @ after
           \<and> realestate_properties (handleDeleteProperty i st)
               = (realestate_properties st)(u_id u \<mapsto> before @ after)
           \<and> payments (handleDeleteProperty i st) = payments st
           \<and> notifications (handleDeleteProperty i st) = notifications st
           \<and> realestate_payments (handleDeleteProperty i st) = realestate_payments st
           \<and> realestate_notifications (handleDeleteProperty i st) = realestate_notifications st
           \<and> user (handleDeleteProperty i st) = user st"
    using split others rest by (simp add: handleDeleteProperty_fields [OF u])
  then show ?thesis by blast
qed

theorem delete_removes_exactly_one_witness:
  "user ex_dashboard2 = Some ex_user
   \<and> length (filter (\<lambda>p. p_id p = ''uuid-1'') (properties ex_dashboard2)) = 1
   \<and> properties (handleDeleteProperty ''uuid-1'' ex_dashboard2) = [ex_property2]
   \<and> payments (handleDeleteProperty ''uuid-1'' ex_dashboard2) = payments ex_dashboard2
   \<and> notifications (handleDeleteProperty ''uuid-1'' ex_dashboard2) = notifications ex_dashboard2"
proof -
  have u: "user ex_dashboard2 = Some ex_user"
    by (simp add: ex_dashboard2_def ex_empty_def)
  have ps: "properties ex_dashboard2 = [ex_property, ex_property2]"
    by (simp add: ex_dashboard2_def ex_empty_def)
  have once: "length (filter (\<lambda>p. p_id p = ''uuid-1'') (properties ex_dashboard2)) = 1"
    by (simp add: ps ex_ids)
  from delete_removes_exactly_one [OF u once] obtain before p after
    where split: "properties ex_dashboard2 = before @ p # after" "p_id p = ''uuid-1''"
      and others: "\<forall>q \<in> set before \<union> set after. p_id q \<noteq> ''uuid-1''"
      and res: "properties (handleDeleteProperty ''uuid-1'' ex_dashboard2) = before @ after"
      and frame: "payments (handleDeleteProperty ''uuid-1'' ex_dashboard2) = payments ex_dashboard2"
        "notifications (handleDeleteProperty ''uuid-1'' ex_dashboard2) = notifications ex_dashboard2"
    by blast
  have "before = []"
  proof (cases before)
    case Nil then show ?thesis .
  next
    case (Cons b bs)
    with split(1) ps have "b = ex_property" by simp
    with others Cons show ?thesis by (simp add: ex_ids)
  qed
  with split(1) ps have "after = [ex_property2]" by simp
  with \<open>before = []\<close> res u once frame show ?thesis by simp
qed

subsection \<open>Adding a property\<close>

text \<open>
  C4. When the add-property form passes validation and a user is signed in, the record that
  is appended to the properties has no occupant and paymentStatus "paid" if the occupant
  field of the form is empty, and has that occupant and paymentStatus "pending" otherwise.
\<close>

theorem add_default_paymentStatus:
  assumes sub: "AddPropertyDialog_handleSubmit e formData handleAddProperty st = (None, st')"
    and u: "user st = Some u"
  shows "\<exists>p. properties st' = properties st @ [p]
           \<and> (f_occupant formData = [] \<longrightarrow> occupant p = None \<and> paymentStatus p = Paid)
           \<and> (f_occupant formData \<noteq> [] \<longrightarrow>
                 occupant p = Some (f_occupant formData) \<and> paymentStatus p = Pending)"
proof -
  from sub have st': "st' = handleAddProperty (newProperty e formData) st"
    by (simp add: AddPropertyDialog_handleSubmit_def split: if_splits)
  define p where "p = (newProperty e formData)\<lparr>p_userId := Some (u_id u)\<rparr>"
  have "properties st' = properties st @ [p]"
    unfolding st' p_def by (rule handleAddProperty_properties [OF u])
  moreover have "occupant p = or_undefined (f_occupant formData)"
    and "paymentStatus p = (if truthy (f_occupant formData) then Pending else Paid)"
    unfolding p_def by (simp_all add: newProperty_fields)
  ultimately show ?thesis by (auto simp: or_undefined_def truthy_def falsy_def)
qed

theorem add_default_paymentStatus_witness:
  "AddPropertyDialog_handleSubmit ex_env ex_add_form handleAddProperty ex_empty
     = (None, handleAddProperty (newProperty ex_env ex_add_form) ex_empty)
   \<and> AddPropertyDialog_handleSubmit ex_env ex_add_form_vacant handleAddProperty ex_empty
     = (None, handleAddProperty (newProperty ex_env ex_add_form_vacant) ex_empty)
   \<and> user ex_empty = Some ex_user
   \<and> map paymentStatus (properties (handleAddProperty (newProperty ex_env ex_add_form) ex_empty))
       = [Pending]
   \<and> map paymentStatus
         (properties (handleAddProperty (newProperty ex_env ex_add_form_vacant) ex_empty))
       = [Paid]"
proof -
  have occ: "AddPropertyDialog_handleSubmit ex_env ex_add_form handleAddProperty ex_empty
     = (None, handleAddProperty (newProperty ex_env ex_add_form) ex_empty)"
    by (simp add: AddPropertyDialog_handleSubmit_def ex_add_form_fields truthy_def falsy_def)
  have vac: "AddPropertyDialog_handleSubmit ex_env ex_add_form_vacant handleAddProperty ex_empty
     = (None, handleAddProperty (newProperty ex_env ex_add_form_vacant) ex_empty)"
    by (simp add: AddPropertyDialog_handleSubmit_def ex_add_form_fields truthy_def falsy_def)
  note u = ex_empty_fields(1)
  from add_default_paymentStatus [OF occ u]
  have "map paymentStatus (properties (handleAddProperty (newProperty ex_env ex_add_form) ex_empty))
       = [Pending]"
    by (auto simp: ex_add_form_fields ex_empty_fields)
  moreover from add_default_paymentStatus [OF vac u]
  have "map paymentStatus
         (properties (handleAddProperty (newProperty ex_env ex_add_form_vacant) ex_empty))
       = [Paid]"
    by (auto simp: ex_add_form_fields ex_empty_fields)
  ultimately show ?thesis using occ vac u by simp
qed

subsection \<open>Signing up\<close>

text \<open>
  C8. When the stored list of accounts holds an account with the given email, \<open>signup\<close>
  returns the failure "Email already registered" and leaves the whole state as it was:
  the session user, the stored session and the stored list of accounts.
\<close>

theorem signup_duplicate_email:
  assumes "realestate_users st = Stored users"
    and "email \<in> a_email ` set users"
  shows "signup e email password name st
           = (\<lparr> success = False, error = Some ''Email already registered'' \<rparr>, st)"
proof -
  from assms(2) have "find (\<lambda>u. a_email u = email) users \<noteq> None"
    by (auto simp: find_None_iff)
  with assms(1) show ?thesis by (simp add: signup_def)
qed

theorem signup_duplicate_email_witness:
  "realestate_users ex_auth = Stored [ex_account]
   \<and> ''owner@example.com'' \<in> a_email ` set [ex_account]
   \<and> signup ex_env ''owner@example.com'' ''another1'' ''Other'' ex_auth
       = (\<lparr> success = False, error = Some ''Email already registered'' \<rparr>, ex_auth)"
proof -
  have h1: "realestate_users ex_auth = Stored [ex_account]" by (simp add: ex_auth_def)
  have h2: "''owner@example.com'' \<in> a_email ` set [ex_account]" by (simp add: ex_account_def)
  from signup_duplicate_email [OF h1 h2] h1 h2 show ?thesis by simp
qed

subsection \<open>Sending a notification\<close>

text \<open>
  C9. When the property has no occupant, or the subject is empty, or the message is empty,
  submitting the send dialog only shows an alert: whatever \<open>fetch\<close> would answer, no request
  is handed to it, the callback \<open>onSend\<close> is not run (the state of the parent is returned
  as it was, so no notification record exists), and the dialog keeps its state.
\<close>

theorem send_validation_first:
  assumes "occupant property = None \<or> d_subject d = [] \<or> d_message d = []"
  shows "\<exists>a. \<forall>fetch. SendNotificationDialog_handleSubmit e fetch property d onSend s
               = (\<lparr> alert = Some a, emailCalls = [], dialog = d \<rparr>, s)"
proof (cases "truthy_opt (occupant property)")
  case False
  then show ?thesis by (simp add: SendNotificationDialog_handleSubmit_def)
next
  case True
  with assms have "d_subject d = [] \<or> d_message d = []"
    by (auto simp: truthy_opt_def)
  then have "falsy (trim (d_subject d)) \<or> falsy (trim (d_message d))"
    by (auto simp: falsy_def trim_empty)
  with True show ?thesis by (simp add: SendNotificationDialog_handleSubmit_def)
qed

theorem send_validation_first_witness:
  "occupant ex_property2 = None
   \<and> d_subject (ex_send_dialog\<lparr>d_subject := []\<rparr>) = []
   \<and> d_message (ex_send_dialog\<lparr>d_message := []\<rparr>) = []
   \<and> notifications (snd (SendNotificationDialog_handleSubmit ex_env (\<lambda>r. Response True)
        ex_property2 ex_send_dialog handleSendNotification ex_dashboard2)) = []
   \<and> emailCalls (fst (SendNotificationDialog_handleSubmit ex_env (\<lambda>r. Response True)
        ex_property2 ex_send_dialog handleSendNotification ex_dashboard2)) = []
   \<and> notifications (snd (SendNotificationDialog_handleSubmit ex_env (\<lambda>r. Response True)
        ex_property (ex_send_dialog\<lparr>d_subject := []\<rparr>) handleSendNotification ex_dashboard2)) = []
   \<and> emailCalls (fst (SendNotificationDialog_handleSubmit ex_env (\<lambda>r. Response True)
        ex_property (ex_send_dialog\<lparr>d_subject := []\<rparr>) handleSendNotification ex_dashboard2)) = []
   \<and> notifications (snd (SendNotificationDialog_handleSubmit ex_env (\<lambda>r. Response True)
        ex_property (ex_send_dialog\<lparr>d_message := []\<rparr>) handleSendNotification ex_dashboard2)) = []
   \<and> emailCalls (fst (SendNotificationDialog_handleSubmit ex_env (\<lambda>r. Response True)
        ex_property (ex_send_dialog\<lparr>d_message := []\<rparr>) handleSendNotification ex_dashboard2)) = []"
proof -
  have n: "notifications ex_dashboard2 = []" by (simp add: ex_dashboard2_def ex_empty_def)
  have h1: "occupant ex_property2 = None \<or> d_subject ex_send_dialog = [] \<or> d_message ex_send_dialog = []"
    by (simp add: ex_occupants)
  have h2: "occupant ex_property = None \<or> d_subject (ex_send_dialog\<lparr>d_subject := []\<rparr>) = []
              \<or> d_message (ex_send_dialog\<lparr>d_subject := []\<rparr>) = []" by simp
  have h3: "occupant ex_property = None \<or> d_subject (ex_send_dialog\<lparr>d_message := []\<rparr>) = []
              \<or> d_message (ex_send_dialog\<lparr>d_message := []\<rparr>) = []" by simp
  from send_validation_first [OF h1, of ex_env handleSendNotification ex_dashboard2]
    send_validation_first [OF h2, of ex_env handleSendNotification ex_dashboard2]
    send_validation_first [OF h3, of ex_env handleSendNotification ex_dashboard2]
  show ?thesis using n ex_occupants(2) by auto
qed

subsection \<open>Lease expiry\<close>

text \<open>
  C7. For a lease end date that the runtime parses to the time \<open>t\<close>, the days until expiry
  are the ceiling of \<open>(t - now) / msPerDay\<close>, and the lease is expiring soon exactly when
  that number is greater than 0 and at most 30, that is, when the lease ends after now and
  at most 30 days after now. So a lease that ends 10 days from now is
  expiring soon, one that ends 31 days from now is not, one that ended in the past is not,
  and a property without a lease end date never is. The count shown by PropertyStats is
  the number of properties whose lease is expiring soon. (The quotient is taken exactly;
  the double division of the source agrees with it while the difference is below
  \<open>2^27\<close> days.)
\<close>

theorem lease_expiry:
  assumes s: "s \<noteq> []" and t: "dateParse e s = Some t"
  shows "getDaysUntilExpiry e (Some s)
           = Some (Num (of_int \<lceil>(of_int (t - now e) :: rat) / of_int msPerDay\<rceil>))
         \<and> (isLeaseExpiringSoon_default e (Some s)
               \<longleftrightarrow> 0 < \<lceil>(of_int (t - now e) :: rat) / of_int msPerDay\<rceil>
                   \<and> \<lceil>(of_int (t - now e) :: rat) / of_int msPerDay\<rceil> \<le> 30)
         \<and> (isLeaseExpiringSoon_default e (Some s)
               \<longleftrightarrow> now e < t \<and> t - now e \<le> 30 * msPerDay)
         \<and> (t - now e = 10 * msPerDay \<longrightarrow> isLeaseExpiringSoon_default e (Some s))
         \<and> (t - now e = 31 * msPerDay \<longrightarrow> \<not> isLeaseExpiringSoon_default e (Some s))
         \<and> (t < now e \<longrightarrow> \<not> isLeaseExpiringSoon_default e (Some s))
         \<and> \<not> isLeaseExpiringSoon_default e None
         \<and> expiringSoon e props
             = length (filter (\<lambda>p. isLeaseExpiringSoon_default e (leaseEndDate p)) props)"
proof -
  note soon = isLeaseExpiringSoon_valid [OF s t]
  have ten: "t - now e = 10 * msPerDay \<longrightarrow> isLeaseExpiringSoon_default e (Some s)"
    by (simp add: soon msPerDay_def)
  have thirty_one: "t - now e = 31 * msPerDay \<longrightarrow> \<not> isLeaseExpiringSoon_default e (Some s)"
    by (simp add: soon msPerDay_def)
  have past: "t < now e \<longrightarrow> \<not> isLeaseExpiringSoon_default e (Some s)"
  proof
    assume "t < now e"
    then have "(of_int (t - now e) :: rat) / of_int msPerDay \<le> 0"
      by (simp add: msPerDay_def divide_le_0_iff)
    then have "\<lceil>(of_int (t - now e) :: rat) / of_int msPerDay\<rceil> \<le> 0"
      by (simp add: ceiling_le_zero)
    then show "\<not> isLeaseExpiringSoon_default e (Some s)"
      by (simp add: soon)
  qed
  have none: "\<not> isLeaseExpiringSoon_default e None"
    by (simp add: isLeaseExpiringSoon_default_def isLeaseExpiringSoon_def getDaysUntilExpiry_def)
  have count: "expiringSoon e props
             = length (filter (\<lambda>p. isLeaseExpiringSoon_default e (leaseEndDate p)) props)"
    by (simp add: expiringSoon_def isLeaseExpiringSoon_default_def isLeaseExpiringSoon_def)
  from getDaysUntilExpiry_valid [OF s t] soon isLeaseExpiringSoon_window [OF s t]
    ten thirty_one past none count
  show ?thesis by blast
qed

theorem lease_expiry_witness:
  "''2025-06-25'' \<noteq> [] \<and> dateParse ex_env_midnight ''2025-06-25'' = Some 1750809600000
   \<and> 1750809600000 - now ex_env_midnight = 10 * msPerDay
   \<and> getDaysUntilExpiry ex_env_midnight (Some ''2025-06-25'') = Some (Num 10)
   \<and> isLeaseExpiringSoon_default ex_env_midnight (Some ''2025-06-25'')
   \<and> dateParse ex_env_midnight ''2025-07-16'' = Some 1752624000000
   \<and> 1752624000000 - now ex_env_midnight = 31 * msPerDay
   \<and> getDaysUntilExpiry ex_env_midnight (Some ''2025-07-16'') = Some (Num 31)
   \<and> \<not> isLeaseExpiringSoon_default ex_env_midnight (Some ''2025-07-16'')
   \<and> dateParse ex_env_midnight ''2025-06-01'' = Some 1748736000000
   \<and> 1748736000000 < now ex_env_midnight
   \<and> \<not> isLeaseExpiringSoon_default ex_env_midnight (Some ''2025-06-01'')
   \<and> expiringSoon ex_env_midnight [ex_property, ex_property2] = 1"
proof -
  have ne: "''2025-06-25'' \<noteq> []" "''2025-07-16'' \<noteq> []" "''2025-06-01'' \<noteq> []" by simp_all
  have d10: "1750809600000 - now ex_env_midnight = 10 * msPerDay"
    and d31: "1752624000000 - now ex_env_midnight = 31 * msPerDay"
    and past: "1748736000000 < now ex_env_midnight"
    by (simp_all add: ex_midnight msPerDay_def)
  note a = lease_expiry [OF ne(1) ex_midnight(2), of "[ex_property, ex_property2]"]
  note b = lease_expiry [OF ne(2) ex_midnight(3), of "[]"]
  note c = lease_expiry [OF ne(3) ex_midnight(4), of "[]"]
  have leases: "leaseEndDate ex_property = Some ''2025-06-25''" "leaseEndDate ex_property2 = None"
    by (simp_all add: ex_property_def ex_property2_def newProperty_def Let_def
        ex_add_form_def ex_add_form_vacant_def or_undefined_def truthy_def falsy_def)
  have soon: "isLeaseExpiringSoon_default ex_env_midnight (Some ''2025-06-25'')"
    using a d10 by blast
  have "expiringSoon ex_env_midnight [ex_property, ex_property2] = 1"
    using a soon by (simp add: leases)
  moreover have "getDaysUntilExpiry ex_env_midnight (Some ''2025-06-25'') = Some (Num 10)"
    using a by (simp add: ex_midnight msPerDay_def)
  moreover have "getDaysUntilExpiry ex_env_midnight (Some ''2025-07-16'') = Some (Num 31)"
    using b by (simp add: ex_midnight msPerDay_def)
  moreover have "\<not> isLeaseExpiringSoon_default ex_env_midnight (Some ''2025-07-16'')"
    using b d31 by blast
  moreover have "\<not> isLeaseExpiringSoon_default ex_env_midnight (Some ''2025-06-01'')"
    using c past by blast
  ultimately show ?thesis using soon d10 d31 past ex_midnight by simp
qed

subsection \<open>Recording a payment\<close>




text \<open>
  The two conditions on the recording are needed. A payment recorded in Lagos at 00:30 on
  2025-03-15 (2025-03-14T23:30Z) gets the due date 2025-04-14, the UTC day of the same
  time one month later, and not 2025-04-15. A payment recorded on 2024-01-31 gets
  2024-03-02: February 2024 has 29 days, and \<^verbatim>\<open>setMonth\<close> carries the two days over.
\<close>

lemma record_payment_due_limits:
  "local_date ex_env_lagos_night (now ex_env_lagos_night) = (2025, 2, 15)
   \<and> calendar_date (one_month_after (2025, 2, 15)) = ''2025-04-15''
   \<and> map nextPaymentDue
         (properties (handleRecordPayment ex_env_lagos_night ex_payment ex_dashboard))
       = [Some ''2025-04-14'']
   \<and> local_date ex_env_january (now ex_env_january) = (2024, 0, 31)
   \<and> one_month_after (2024, 0, 31) = (2024, 1, 31)
   \<and> daysInMonth 2024 1 = 29
   \<and> map nextPaymentDue
         (properties (handleRecordPayment ex_env_january ex_payment ex_dashboard))
       = [Some ''2024-03-02'']"
  by (simp add: handleRecordPayment_fields(1) [OF ex_dashboard_fields(1)] ex_dashboard_fields
      ex_ids ex_payment_fields ex_slips ex_recording_dates ex_next_month)

text \<open>
  C3 does not hold of the code. After the payment of the example is recorded, the document
  under the user's payments key is the list of the updated properties, not the previous
  payments with the new payment appended; and the document under the properties key still
  holds the property as it was before, with paymentStatus "pending", although the state
  shows it as "paid".
\<close>

theorem record_payment_store_at_example:
  "user ex_dashboard = Some ex_user
   \<and> realestate_payments (handleRecordPayment ex_env ex_payment ex_dashboard) ''user_1''
       = Some (map PropertyRow (properties (handleRecordPayment ex_env ex_payment ex_dashboard)))
   \<and> realestate_payments (handleRecordPayment ex_env ex_payment ex_dashboard) ''user_1''
       \<noteq> Some (payments ex_dashboard @ [PaymentRow (ex_payment\<lparr>pay_userId := Some ''user_1''\<rparr>)])
   \<and> map paymentStatus (properties (handleRecordPayment ex_env ex_payment ex_dashboard)) = [Paid]
   \<and> map_option (map paymentStatus)
         (realestate_properties (handleRecordPayment ex_env ex_payment ex_dashboard) ''user_1'')
       = Some [Pending]"
  by (simp add: handleRecordPayment_fields [OF ex_dashboard_fields(1)] ex_dashboard_fields
      ex_ids ex_payment_fields ex_user_id ex_property_fields)

text \<open>
  C10 does not hold of the code, by the same last statement of \<open>handleRecordPayment\<close>. The
  payment that the dialog creates is "completed" (lemma \<open>RecordPaymentDialog_completed\<close>),
  and the array \<open>payments\<close> shows it so until the page is loaded again (lemma
  \<open>handleRecordPayment_keeps_completed\<close>). But the rows stored
  under the payments key are then the properties; after a reload they are the array
  \<open>payments\<close>, and the status of such a row is the occupancy status of the property. In
  the session of the example (add the flat, record the payment, reload) the one row of
  \<open>payments\<close> has status "occupied".
\<close>

theorem payments_after_reload_at_example:
  "user ex_empty = Some ex_user \<and> payments ex_empty = []
   \<and> realestate_payments ex_empty ''user_1'' = None
   \<and> map row_status (payments ex_recorded) = [''completed'']
   \<and> map_option (map row_status) (realestate_payments ex_recorded ''user_1'')
       = Some [''occupied'']
   \<and> map row_status (payments ex_reloaded) = [''occupied'']"
proof -
  have rec: "ex_recorded = handleRecordPayment ex_env ex_payment ex_dashboard"
    by (simp add: ex_recorded_def ex_dialog_payment ex_added_eq)
  note f = handleRecordPayment_fields [OF ex_dashboard_fields(1), of ex_env ex_payment]
  have props: "properties ex_recorded
      = [ex_property\<lparr>paymentStatus := Paid, lastPaymentDate := Some ''2025-03-01'',
                      nextPaymentDue := Some ''2025-07-15''\<rparr>]"
    by (simp add: rec f ex_dashboard_fields ex_ids ex_payment_fields ex_dates)
  have mem: "map row_status (payments ex_recorded) = [''completed'']"
    by (simp add: rec f ex_dashboard_fields row_status_def ex_payment_fields)
  have store: "realestate_payments ex_recorded ''user_1''
      = Some (map PropertyRow (properties ex_recorded))"
    by (simp add: rec f ex_user_id)
  have u: "user ex_recorded = Some ex_user"
    by (simp add: rec f ex_dashboard_fields)
  have reload: "payments ex_reloaded = map PropertyRow (properties ex_recorded)"
    by (simp add: ex_reloaded_def DashboardPage_mount_def loadUserData_def u ex_user_id store
        Let_def split: option.split)
  have rows: "map row_status (map PropertyRow (properties ex_recorded)) = [''occupied'']"
    by (simp add: props row_status_def ex_property_fields)
  have "realestate_payments ex_empty ''user_1'' = None" by (simp add: ex_empty_def)
  with mem store reload rows show ?thesis by (simp add: ex_empty_fields)
qed

subsection \<open>A notification whose email fails\<close>

text \<open>
  C2 does not hold of the code. With an occupant, a subject, a message and a recipient
  address, the dialog calls the email endpoint before it builds the notification; when the
  call fails, the exception skips the rest of the \<^verbatim>\<open>try\<close> block, so \<open>onSend\<close> is never
  run: the error banner is shown, and no notification is appended to the history or
  stored (lemma \<open>email_failure_skips_onSend\<close> for every such input). In the example the endpoint
  answers with a status that is not ok; with an endpoint that succeeds the same submit
  appends one notification.
\<close>

theorem send_email_failure_at_example:
  "occupant ex_property = Some ''Jane''
   \<and> d_subject ex_send_dialog = ''Rent'' \<and> d_message ex_send_dialog = ''Rent is due''
   \<and> d_recipientEmail ex_send_dialog = ''jane@example.com''
   \<and> sendStatus (dialog (fst (SendNotificationDialog_handleSubmit ex_env (\<lambda>r. Response False)
         ex_property ex_send_dialog handleSendNotification ex_dashboard))) = Error
   \<and> map em_to (emailCalls (fst (SendNotificationDialog_handleSubmit ex_env
         (\<lambda>r. Response False) ex_property ex_send_dialog handleSendNotification ex_dashboard)))
       = [''jane@example.com'']
   \<and> notifications (snd (SendNotificationDialog_handleSubmit ex_env (\<lambda>r. Response False)
         ex_property ex_send_dialog handleSendNotification ex_dashboard)) = []
   \<and> realestate_notifications (snd (SendNotificationDialog_handleSubmit ex_env
         (\<lambda>r. Response False) ex_property ex_send_dialog handleSendNotification ex_dashboard))
         ''user_1'' = None
   \<and> length (notifications (snd (SendNotificationDialog_handleSubmit ex_env
         (\<lambda>r. Response True) ex_property ex_send_dialog handleSendNotification ex_dashboard)))
       = 1"
proof -
  have fail: "\<forall>r. (\<lambda>r. Response False) r = Rejected \<or> (\<lambda>r. Response False) r = Response False"
    by simp
  note f = email_failure_skips_onSend [OF ex_send_dialog_truthy fail, of ex_env handleSendNotification
      ex_dashboard]
  have calls: "map em_to (emailCalls (fst (SendNotificationDialog_handleSubmit ex_env
         (\<lambda>r. Response False) ex_property ex_send_dialog handleSendNotification ex_dashboard)))
       = [''jane@example.com'']"
    using ex_send_dialog_truthy
    by (simp add: SendNotificationDialog_handleSubmit_def Let_def sendEmailNotification_def
        ex_send_dialog_def falsy_iff)
  have ok: "length (notifications (snd (SendNotificationDialog_handleSubmit ex_env
         (\<lambda>r. Response True) ex_property ex_send_dialog handleSendNotification ex_dashboard)))
       = 1"
    using ex_send_dialog_truthy
    by (simp add: SendNotificationDialog_handleSubmit_def Let_def sendEmailNotification_def
        handleSendNotification_def ex_dashboard_fields falsy_iff)
  show ?thesis
    using f calls ok by (simp add: ex_occupants ex_dashboard_fields) (simp add: ex_send_dialog_def)
qed

subsection \<open>The first due date of an occupied property\<close>

text \<open>
  C5 does not hold of the code east of Greenwich. \<open>newProperty\<close> takes local midnight of the
  first day of the following month and prints it with \<open>toISOString\<close>, which is UTC: in
  Lagos (UTC+1) that moment is 23:00 of the day before. A property added there on
  2025-03-15 with an occupant gets nextPaymentDue 2025-03-31, the last day of the month it
  is created in, where the first day of the following month is 2025-04-01. On a browser
  in UTC the date is the first of the following month, and without an occupant
  nextPaymentDue is unset.
\<close>

theorem add_next_due_in_lagos:
  "f_occupant ex_add_form = ''Jane''
   \<and> toISOString (LocalTime ex_env_lagos (now ex_env_lagos)) = ''2025-03-15T10:00:00.000Z''
   \<and> p_createdAt (newProperty ex_env_lagos ex_add_form) = ''2025-03-15T09:00:00.000Z''
   \<and> spec_first_of_following_month ex_env_lagos = ''2025-04-01''
   \<and> nextPaymentDue (newProperty ex_env_lagos ex_add_form) = Some ''2025-03-31''
   \<and> nextPaymentDue (newProperty ex_env ex_add_form) = Some ''2025-07-01''
   \<and> nextPaymentDue (newProperty ex_env_lagos ex_add_form_vacant) = None"
proof -
  have "p_createdAt (newProperty ex_env_lagos ex_add_form) = toISOString (now ex_env_lagos)"
    by (simp add: newProperty_def Let_def)
  then show ?thesis
    by (simp add: newProperty_fields ex_add_form_fields truthy_def falsy_def ex_dates ex_dates_lagos)
qed

end
